theory Spec2Isabelle
  imports Main "HOL-Library.Sublist"
begin

section \<open>Text: lower-casing and substring containment\<close>

text \<open>
  A Python \<open>str\<close> is modelled as a \<open>string\<close> whose characters are the code points
  U+0000 to U+00FF. On these code points \<open>str.lower()\<close> maps one character to one
  character: \<open>A\<close>..\<open>Z\<close> and the Latin-1 capitals U+00C0..U+00DE (without the
  multiplication sign U+00D7) move up by 32, every other character is unchanged.
\<close>

definition lower_char :: "char \<Rightarrow> char" where
  "lower_char c =
     (let n = (of_char c :: nat)
      in if (65 \<le> n \<and> n \<le> 90) \<or> (192 \<le> n \<and> n \<le> 222 \<and> n \<noteq> 215)
         then char_of (n + 32) else c)"

definition lower :: "string \<Rightarrow> string" where
  "lower s = map lower_char s"

text \<open>The operator \<open>sub in s\<close> on strings: \<open>sub\<close> occurs in \<open>s\<close> at some position.\<close>

fun contains :: "string \<Rightarrow> string \<Rightarrow> bool" where
  "contains [] sub = (sub = [])"
| "contains (x # xs) sub = (prefix sub (x # xs) \<or> contains xs sub)"

section \<open>The appointment record and the database\<close>

text \<open>
  The dictionary \<open>appointment_data\<close> of \<open>_parse_appointment_details\<close>. The keys
  \<open>appointment_date\<close> and \<open>id\<close> are added after the dictionary is created; \<open>id\<close> is
  absent (\<open>None\<close>) until \<open>_extract_appointment_data\<close> stores the database's answer.
  The key \<open>notes\<close> is the field \<open>appt_notes\<close> (\<open>notes\<close> is a reserved word).
\<close>

record appointment_data =
  title :: string
  description :: string
  appointment_type :: string
  duration_minutes :: int
  location :: "string option"
  appt_notes :: "string option"
  appointment_date :: string
  appointment_id :: "int option"

text \<open>
  A row of the table \<open>appointments\<close> as the \<open>INSERT\<close> of \<open>_create_appointment\<close>
  writes it, and the database as far as that statement sees it: whether the connection
  can be opened, the rows committed so far, the next value of the \<open>id\<close> sequence, and
  what the server does with the \<open>INSERT\<close> of a given row.
\<close>

record appointment_row =
  row_id :: int
  row_user_id :: int
  row_title :: string
  row_description :: string
  row_appointment_date :: string
  row_duration_minutes :: int
  row_appointment_type :: string
  row_location :: "string option"
  row_notes :: "string option"
  row_status :: string

text \<open>
  The outcome of \<open>execute\<close>, \<open>fetchone\<close> and \<open>commit\<close> on a connection that is open:
  the row is committed; or one of the three calls raises and no row is committed, with
  the value of the \<open>id\<close> sequence unused or used up (a sequence is not rolled back).
\<close>

datatype insert_outcome = Committed | Raised | Raised_after_id

record database =
  db_available :: bool
  db_rows :: "appointment_row list"
  db_next_id :: int
  db_outcome :: "appointment_row \<Rightarrow> insert_outcome"

text \<open>
  The row that the \<open>INSERT\<close> of line 295 writes for the parameters of line 301, with
  the id that the sequence gives it.
\<close>

definition inserted_row :: "int \<Rightarrow> appointment_data \<Rightarrow> int \<Rightarrow> appointment_row" where
  "inserted_row user_id data new_id =
     \<lparr>row_id = new_id,
      row_user_id = user_id,
      row_title = title data,
      row_description = description data,
      row_appointment_date = appointment_date data,
      row_duration_minutes = duration_minutes data,
      row_appointment_type = appointment_type data,
      row_location = location data,
      row_notes = appt_notes data,
      row_status = ''pending''\<rparr>"

text \<open>
  The driver refuses a text parameter that contains the character NUL: \<open>execute\<close>
  raises \<open>ValueError\<close> before anything is sent to the server.
\<close>

definition has_nul :: "string \<Rightarrow> bool" where
  "has_nul s = (CHR 0x00 \<in> set s)"

definition has_nul_parameter :: "appointment_data \<Rightarrow> bool" where
  "has_nul_parameter data =
     (has_nul (title data) \<or> has_nul (description data) \<or> has_nul (appointment_date data)
      \<or> has_nul (appointment_type data)
      \<or> (case location data of None \<Rightarrow> False | Some s \<Rightarrow> has_nul s)
      \<or> (case appt_notes data of None \<Rightarrow> False | Some s \<Rightarrow> has_nul s))"

text \<open>
  \<open>_create_appointment\<close>: connect, insert one row with status \<open>pending\<close>, commit and
  return the new id. Every exception inside is caught and answered with \<open>None\<close>: the
  connection cannot be opened; the driver refuses a parameter; the statement, the fetch
  of the id or the commit raises. In none of these cases is a row committed. The calls
  after the commit (closing the cursor and the connection, the log line) are taken not
  to raise.
\<close>

definition create_appointment ::
  "int \<Rightarrow> appointment_data \<Rightarrow> database \<Rightarrow> int option \<times> database" where
  "create_appointment user_id data db =
     (if \<not> db_available db then (None, db)
      else if has_nul_parameter data then (None, db)
      else
        (case db_outcome db (inserted_row user_id data (db_next_id db)) of
           Committed \<Rightarrow>
             (Some (db_next_id db),
              db\<lparr>db_rows := db_rows db @ [inserted_row user_id data (db_next_id db)],
                 db_next_id := db_next_id db + 1\<rparr>)
         | Raised \<Rightarrow> (None, db)
         | Raised_after_id \<Rightarrow> (None, db\<lparr>db_next_id := db_next_id db + 1\<rparr>)))"

section \<open>Keyword detection\<close>

definition appointment_keywords :: "string list" where
  "appointment_keywords =
     [''schedule'', ''book'', ''appointment'', ''meeting'', ''consultation'',
      ''checkup'', ''visit'', ''session'', ''reservation'', ''make an appointment'']"

definition confirmation_keywords :: "string list" where
  "confirmation_keywords =
     [''scheduled'', ''booked'', ''confirmed'', ''appointment created'',
      ''i'' @ [CHR 0x27] @ ''ve scheduled'', ''your appointment is'',
      ''appointment has been'', ''i'' @ [CHR 0x27] @ ''ll schedule'',
      ''let me schedule'', ''i can schedule'']"

definition detail_keywords :: "string list" where
  "detail_keywords =
     [''tomorrow'', ''today'', ''next week'', ''monday'', ''tuesday'', ''wednesday'',
      ''thursday'', ''friday'', ''saturday'', ''sunday'', ''am'', ''pm'', ''morning'',
      ''afternoon'', ''evening'', ''medical'', ''consultation'', ''checkup'']"

text \<open>\<open>any(keyword in text.lower() for keyword in keywords)\<close>\<close>

definition any_keyword_in :: "string list \<Rightarrow> string \<Rightarrow> bool" where
  "any_keyword_in keywords text = list_ex (\<lambda>keyword. contains (lower text) keyword) keywords"

definition wants_to_schedule :: "string \<Rightarrow> bool" where
  "wants_to_schedule user_message = any_keyword_in appointment_keywords user_message"

definition has_details :: "string \<Rightarrow> bool" where
  "has_details user_message = any_keyword_in detail_keywords user_message"

definition bot_confirms :: "string \<Rightarrow> bool" where
  "bot_confirms bot_response = any_keyword_in confirmation_keywords bot_response"

section \<open>Dates and times\<close>

text \<open>
  The exceptions the modelled code can raise: \<open>ValueError\<close> from
  \<open>datetime.replace\<close> on a field out of range, \<open>OverflowError\<close> from adding a
  \<open>timedelta\<close> beyond year 9999, \<open>TypeError\<close> from \<open>int(None)\<close>.
\<close>

datatype error = ValueError | OverflowError | TypeError

definition then_do :: "error + 'a \<Rightarrow> ('a \<Rightarrow> error + 'b) \<Rightarrow> error + 'b" where
  "then_do r f = (case r of Inl e \<Rightarrow> Inl e | Inr x \<Rightarrow> f x)"

text \<open>
  A naive \<open>datetime\<close>. The date is held as its proleptic Gregorian ordinal
  (\<open>date.toordinal()\<close>, day 1 is 0001-01-01 and day 3652059 is 9999-12-31), the form
  in which the library adds days, takes the weekday and compares; year, month and day
  are computed from it by \<open>ord2ymd\<close> below.
\<close>

record datetime =
  ordinal :: int
  hour :: nat
  minute :: nat
  second :: nat
  microsecond :: nat

definition MAXORDINAL :: int where
  "MAXORDINAL = 3652059"

text \<open>\<open>d + timedelta(days=n)\<close>\<close>

definition add_days :: "datetime \<Rightarrow> int \<Rightarrow> error + datetime" where
  "add_days d n =
     (if 0 < ordinal d + n \<and> ordinal d + n \<le> MAXORDINAL
      then Inr (d\<lparr>ordinal := ordinal d + n\<rparr>) else Inl OverflowError)"

text \<open>\<open>d.replace(hour=h, minute=m, second=s, microsecond=us)\<close> and \<open>d.replace(hour=h, minute=m)\<close>:
  the new value is built by the constructor, which checks every time field.\<close>

definition replace_time :: "datetime \<Rightarrow> nat \<Rightarrow> nat \<Rightarrow> nat \<Rightarrow> nat \<Rightarrow> error + datetime" where
  "replace_time d h m s us =
     (if h < 24 \<and> m < 60 \<and> s < 60 \<and> us < 1000000
      then Inr (d\<lparr>hour := h, minute := m, second := s, microsecond := us\<rparr>)
      else Inl ValueError)"

definition replace_hour_minute :: "datetime \<Rightarrow> nat \<Rightarrow> nat \<Rightarrow> error + datetime" where
  "replace_hour_minute d h m = replace_time d h m (second d) (microsecond d)"

text \<open>\<open>d.weekday()\<close>: Monday is 0.\<close>

definition weekday :: "datetime \<Rightarrow> int" where
  "weekday d = (ordinal d + 6) mod 7"

text \<open>Comparison of two naive datetimes: by date, then by the time fields in order.\<close>

definition dt_less :: "datetime \<Rightarrow> datetime \<Rightarrow> bool" where
  "dt_less a b =
     (ordinal a < ordinal b \<or> (ordinal a = ordinal b \<and>
       (hour a < hour b \<or> (hour a = hour b \<and>
         (minute a < minute b \<or> (minute a = minute b \<and>
           (second a < second b \<or> (second a = second b \<and>
             microsecond a < microsecond b))))))))"

subsection \<open>Calendar conversion and \<open>isoformat\<close>\<close>

definition is_leap :: "int \<Rightarrow> bool" where
  "is_leap year = (year mod 4 = 0 \<and> (year mod 100 \<noteq> 0 \<or> year mod 400 = 0))"

definition DAYS_IN_MONTH :: "int list" where
  "DAYS_IN_MONTH = [-1, 31, 28, 31, 30, 31, 30, 31, 31, 30, 31, 30, 31]"

definition DAYS_BEFORE_MONTH :: "int list" where
  "DAYS_BEFORE_MONTH = [-1, 0, 31, 59, 90, 120, 151, 181, 212, 243, 273, 304, 334]"

definition days_before_year :: "int \<Rightarrow> int" where
  "days_before_year year =
     (let y = year - 1 in y * 365 + y div 4 - y div 100 + y div 400)"

definition days_before_month :: "int \<Rightarrow> int \<Rightarrow> int" where
  "days_before_month year month =
     DAYS_BEFORE_MONTH ! nat month + (if month > 2 \<and> is_leap year then 1 else 0)"

definition ymd2ord :: "int \<Rightarrow> int \<Rightarrow> int \<Rightarrow> int" where
  "ymd2ord year month day = days_before_year year + days_before_month year month + day"

text \<open>
  \<open>_ord2ymd\<close> of the library. Where the tables are read, \<open>n\<close> is a day of the year
  between 0 and 364, so \<open>month\<close> is between 1 and 12 and the list lookups are in range.
\<close>

definition ord2ymd :: "int \<Rightarrow> int \<times> int \<times> int" where
  "ord2ymd n0 =
     (let n = n0 - 1;
          n400 = n div 146097; n = n mod 146097;
          year = n400 * 400 + 1;
          n100 = n div 36524; n = n mod 36524;
          n4 = n div 1461; n = n mod 1461;
          n1 = n div 365; n = n mod 365;
          year = year + n100 * 100 + n4 * 4 + n1
      in if n1 = 4 \<or> n100 = 4 then (year - 1, 12, 31)
         else
           (let leapyear = (n1 = 3 \<and> (n4 \<noteq> 24 \<or> n100 = 3));
                month = (n + 50) div 32;
                preceding = DAYS_BEFORE_MONTH ! nat month
                              + (if month > 2 \<and> leapyear then 1 else 0)
            in if preceding > n
               then (let month = month - 1;
                         preceding = preceding - (DAYS_IN_MONTH ! nat month
                                       + (if month = 2 \<and> leapyear then 1 else 0))
                     in (year, month, n - preceding + 1))
               else (year, month, n - preceding + 1)))"

definition digit_char :: "nat \<Rightarrow> char" where
  "digit_char n = char_of (48 + n mod 10)"

text \<open>\<open>"%02d"\<close>, \<open>"%04d"\<close> and \<open>"%06d"\<close> on numbers that fit the width.\<close>

definition fmt02 :: "nat \<Rightarrow> string" where
  "fmt02 n = [digit_char (n div 10), digit_char n]"

definition fmt04 :: "nat \<Rightarrow> string" where
  "fmt04 n = [digit_char (n div 1000), digit_char (n div 100), digit_char (n div 10),
              digit_char n]"

definition fmt06 :: "nat \<Rightarrow> string" where
  "fmt06 n = [digit_char (n div 100000), digit_char (n div 10000), digit_char (n div 1000),
              digit_char (n div 100), digit_char (n div 10), digit_char n]"

definition isoformat :: "datetime \<Rightarrow> string" where
  "isoformat d =
     (case ord2ymd (ordinal d) of (y, m, dd) \<Rightarrow>
        fmt04 (nat y) @ ''-'' @ fmt02 (nat m) @ ''-'' @ fmt02 (nat dd) @ ''T''
          @ fmt02 (hour d) @ '':'' @ fmt02 (minute d) @ '':'' @ fmt02 (second d)
          @ (if microsecond d \<noteq> 0 then ''.'' @ fmt06 (microsecond d) else []))"

text \<open>\<open>datetime(year, month, day, hour, minute, second)\<close>, for writing down a reference time.\<close>

definition mk_datetime :: "int \<Rightarrow> int \<Rightarrow> int \<Rightarrow> nat \<Rightarrow> nat \<Rightarrow> nat \<Rightarrow> datetime" where
  "mk_datetime y m d h mi s =
     \<lparr>ordinal = ymd2ord y m d, hour = h, minute = mi, second = s, microsecond = 0\<rparr>"

section \<open>Regular expressions of the time patterns\<close>

text \<open>
  The character classes \<open>\d\<close> and \<open>\s\<close> of a \<open>str\<close> pattern, on the code points
  up to U+00FF: the decimal digits are \<open>0\<close>..\<open>9\<close>; the white space is U+0009..U+000D,
  U+001C..U+0020, U+0085 and U+00A0.
\<close>

definition is_digit :: "char \<Rightarrow> bool" where
  "is_digit c = (let n = (of_char c :: nat) in 48 \<le> n \<and> n \<le> 57)"

definition is_space :: "char \<Rightarrow> bool" where
  "is_space c =
     (let n = (of_char c :: nat)
      in (9 \<le> n \<and> n \<le> 13) \<or> (28 \<le> n \<and> n \<le> 32) \<or> n = 133 \<or> n = 160)"

text \<open>\<open>int(s)\<close> on a string of decimal digits.\<close>

definition int_of_digits :: "string \<Rightarrow> nat" where
  "int_of_digits s = foldl (\<lambda>a c. 10 * a + (of_char c - 48)) 0 s"

text \<open>
  A match object: the matched text \<open>group(0)\<close> and the groups \<open>group(1)\<close>, \<open>group(2)\<close>,
  ... in order, \<open>None\<close> for a group that took no part in the match.
\<close>

record re_match =
  group0 :: string
  groups :: "string option list"

definition group :: "re_match \<Rightarrow> nat \<Rightarrow> string option" where
  "group m k =
     (if k = 0 then Some (group0 m)
      else if k \<le> length (groups m) then groups m ! (k - 1) else None)"

fun first_some :: "('a \<Rightarrow> 'b option) \<Rightarrow> 'a list \<Rightarrow> 'b option" where
  "first_some f [] = None"
| "first_some f (x # xs) = (case f x of Some r \<Rightarrow> Some r | None \<Rightarrow> first_some f xs)"

text \<open>
  The greedy group \<open>(\d{1,2})\<close> at the start of \<open>s\<close>: the ways to match it, in the
  order the matcher tries them (two digits first, then one), each with the rest of the
  text.
\<close>

definition digits12 :: "string \<Rightarrow> (string \<times> string) list" where
  "digits12 s =
     (case s of
        [] \<Rightarrow> []
      | [d1] \<Rightarrow> if is_digit d1 then [([d1], [])] else []
      | d1 # d2 # r \<Rightarrow>
          if is_digit d1 \<and> is_digit d2 then [([d1, d2], r), ([d1], d2 # r)]
          else if is_digit d1 then [([d1], d2 # r)]
          else [])"

text \<open>The alternation \<open>(am|pm)\<close> at the start of \<open>r\<close>.\<close>

definition am_pm :: "string \<Rightarrow> string option" where
  "am_pm r = (if prefix ''am'' r then Some ''am'' else if prefix ''pm'' r then Some ''pm''
              else None)"

text \<open>
  The three patterns, each matched at the start of \<open>s\<close>. The greedy \<open>\s*\<close> takes all
  the white space that follows; giving some of it back cannot help what comes next,
  which must start with a letter (or, in the first pattern, may be empty).

  \<^verbatim>\<open>(\d{1,2}):(\d{2})\s*(am|pm)?\<close>
\<close>

definition match_hour_minute :: "string \<Rightarrow> re_match option" where
  "match_hour_minute s =
     first_some
       (\<lambda>(h, r). case r of
            c # m1 # m2 # r' \<Rightarrow>
              if c = CHR '':'' \<and> is_digit m1 \<and> is_digit m2
              then (let ap = am_pm (dropWhile is_space r')
                    in Some \<lparr>group0 = h @ '':'' @ [m1, m2] @ takeWhile is_space r'
                                        @ (case ap of Some a \<Rightarrow> a | None \<Rightarrow> []),
                              groups = [Some h, Some [m1, m2], ap]\<rparr>)
              else None
          | _ \<Rightarrow> None)
       (digits12 s)"

text \<open>\<^verbatim>\<open>(\d{1,2})\s*(am|pm)\<close>\<close>

definition match_hour_ampm :: "string \<Rightarrow> re_match option" where
  "match_hour_ampm s =
     first_some
       (\<lambda>(h, r). case am_pm (dropWhile is_space r) of
            Some a \<Rightarrow> Some \<lparr>group0 = h @ takeWhile is_space r @ a,
                             groups = [Some h, Some a]\<rparr>
          | None \<Rightarrow> None)
       (digits12 s)"

text \<open>\<^verbatim>\<open>(\d{1,2})\s*o\'?clock\<close>\<close>

definition match_oclock :: "string \<Rightarrow> re_match option" where
  "match_oclock s =
     first_some
       (\<lambda>(h, r).
          if prefix (''o'' @ [CHR 0x27] @ ''clock'') (dropWhile is_space r)
          then Some \<lparr>group0 = h @ takeWhile is_space r @ ''o'' @ [CHR 0x27] @ ''clock'',
                     groups = [Some h]\<rparr>
          else if prefix ''oclock'' (dropWhile is_space r)
          then Some \<lparr>group0 = h @ takeWhile is_space r @ ''oclock'', groups = [Some h]\<rparr>
          else None)
       (digits12 s)"

text \<open>\<open>re.search\<close>: the match at the leftmost position that has one.\<close>

fun re_search :: "(string \<Rightarrow> re_match option) \<Rightarrow> string \<Rightarrow> re_match option" where
  "re_search pattern [] = pattern []"
| "re_search pattern (c # cs) =
     (case pattern (c # cs) of Some m \<Rightarrow> Some m | None \<Rightarrow> re_search pattern cs)"

definition time_patterns :: "(string \<Rightarrow> re_match option) list" where
  "time_patterns = [match_hour_minute, match_hour_ampm, match_oclock]"

section \<open>\<open>_parse_date_time\<close>\<close>

text \<open>
  The clock is a parameter: \<open>now\<close> stands for \<open>datetime.now()\<close>, read once for the
  whole call.
\<close>

definition days_of_week :: "(string \<times> int) list" where
  "days_of_week =
     [(''monday'', 0), (''tuesday'', 1), (''wednesday'', 2), (''thursday'', 3),
      (''friday'', 4), (''saturday'', 5), (''sunday'', 6)]"

text \<open>The loop over \<open>days_of_week.items()\<close> up to its \<open>break\<close>: the first day, in the
  order of the table, whose name occurs in the message.\<close>

fun find_day :: "(string \<times> int) list \<Rightarrow> string \<Rightarrow> (string \<times> int) option" where
  "find_day [] message_lower = None"
| "find_day ((day_name, day_num) # rest) message_lower =
     (if contains message_lower day_name then Some (day_name, day_num)
      else find_day rest message_lower)"

definition days_ahead :: "int \<Rightarrow> datetime \<Rightarrow> int" where
  "days_ahead day_num now =
     (let d = day_num - weekday now in if d \<le> 0 then d + 7 else d)"

definition at_ten :: "datetime \<Rightarrow> error + datetime" where
  "at_ten d = replace_time d 10 0 0 0"

text \<open>The value of \<open>base_date\<close> after the date words and the day names (lines 215 to 241).\<close>

definition resolve_base_date :: "datetime \<Rightarrow> string \<Rightarrow> error + datetime" where
  "resolve_base_date now message_lower =
     then_do (then_do (add_days now 1) at_ten) (\<lambda>base_date.
     then_do (if contains message_lower ''today'' then at_ten now
              else if contains message_lower ''tomorrow'' then then_do (add_days now 1) at_ten
              else Inr base_date) (\<lambda>base_date.
     case find_day days_of_week message_lower of
       Some (day_name, day_num) \<Rightarrow> then_do (add_days now (days_ahead day_num now)) at_ten
     | None \<Rightarrow> Inr base_date))"

definition int_group :: "re_match \<Rightarrow> nat \<Rightarrow> error + nat" where
  "int_group m k = (case group m k of Some g \<Rightarrow> Inr (int_of_digits g) | None \<Rightarrow> Inl TypeError)"

text \<open>The conversion to the 24-hour clock.\<close>

definition to_24_hour :: "nat \<Rightarrow> string option \<Rightarrow> nat" where
  "to_24_hour h ampm =
     (case ampm of
        None \<Rightarrow> h
      | Some a \<Rightarrow>
          if a = [] then h
          else if lower a = ''pm'' \<and> h \<noteq> 12 then h + 12
          else if lower a = ''am'' \<and> h = 12 then 0
          else h)"

text \<open>Hour and minute read off a match (lines 253 to 267).\<close>

definition clock_of_match :: "re_match \<Rightarrow> error + nat \<times> nat" where
  "clock_of_match m =
     then_do
       (if contains (group0 m) '':''
        then then_do (int_group m 1) (\<lambda>h. then_do (int_group m 2) (\<lambda>mi.
               Inr (h, mi, if length (groups m) > 2 then group m 3 else None)))
        else then_do (int_group m 1) (\<lambda>h.
               Inr (h, 0, if length (groups m) > 1 then group m 2 else None)))
       (\<lambda>(h, mi, ampm). Inr (to_24_hour h ampm, mi))"

text \<open>The loop over the time patterns: the first pattern that matches anywhere sets the
  clock time and ends the loop.\<close>

fun apply_time_patterns ::
  "(string \<Rightarrow> re_match option) list \<Rightarrow> string \<Rightarrow> datetime \<Rightarrow> error + datetime" where
  "apply_time_patterns [] message_lower base_date = Inr base_date"
| "apply_time_patterns (pattern # rest) message_lower base_date =
     (case re_search pattern message_lower of
        Some m \<Rightarrow> then_do (clock_of_match m) (\<lambda>(h, mi). replace_hour_minute base_date h mi)
      | None \<Rightarrow> apply_time_patterns rest message_lower base_date)"

text \<open>The time descriptions (lines 273 to 278).\<close>

definition apply_time_descriptions :: "string \<Rightarrow> datetime \<Rightarrow> error + datetime" where
  "apply_time_descriptions message_lower base_date =
     (if contains message_lower ''morning'' then replace_hour_minute base_date 9 0
      else if contains message_lower ''afternoon'' then replace_hour_minute base_date 14 0
      else if contains message_lower ''evening'' then replace_hour_minute base_date 18 0
      else Inr base_date)"

text \<open>The datetime that \<open>_parse_date_time\<close> formats, and the function itself.\<close>

definition parse_date_time_value :: "datetime \<Rightarrow> string \<Rightarrow> error + datetime" where
  "parse_date_time_value now user_message =
     (let message_lower = lower user_message
      in then_do (resolve_base_date now message_lower) (\<lambda>base_date.
         then_do (apply_time_patterns time_patterns message_lower base_date) (\<lambda>base_date.
         apply_time_descriptions message_lower base_date)))"

definition parse_date_time :: "datetime \<Rightarrow> string \<Rightarrow> error + string" where
  "parse_date_time now user_message =
     then_do (parse_date_time_value now user_message) (\<lambda>base_date. Inr (isoformat base_date))"

section \<open>\<open>_parse_appointment_details\<close> and \<open>_extract_appointment_data\<close>\<close>

text \<open>
  \<open>_parse_appointment_details\<close> answers \<open>None\<close> when anything inside it raises. The key
  \<open>appointment_date\<close> does not exist before line 190 sets it; the record holds the
  empty string until then.
\<close>

definition parse_appointment_details ::
  "datetime \<Rightarrow> string \<Rightarrow> string \<Rightarrow> appointment_data option" where
  "parse_appointment_details now user_message bot_response =
     (let appointment_data =
            \<lparr>title = ''Appointment'', description = user_message,
             appointment_type = ''general'', duration_minutes = 60, location = None,
             appt_notes = None, appointment_date = [], appointment_id = None\<rparr>;
          appointment_data =
            (if any_keyword_in [''medical'', ''doctor'', ''checkup'', ''health''] user_message
             then appointment_data\<lparr>appointment_type := ''medical'',
                                    title := ''Medical Appointment''\<rparr>
             else if any_keyword_in [''consultation'', ''consult''] user_message
             then appointment_data\<lparr>appointment_type := ''consultation'',
                                    title := ''Consultation''\<rparr>
             else if any_keyword_in [''follow'', ''follow-up''] user_message
             then appointment_data\<lparr>appointment_type := ''follow-up'',
                                    title := ''Follow-up Appointment''\<rparr>
             else appointment_data)
      in case parse_date_time now user_message of
           Inl e \<Rightarrow> None
         | Inr date \<Rightarrow>
             (let appointment_data = appointment_data\<lparr>appointment_date := date\<rparr>
              in Some
                (if contains (lower user_message) ''30 minutes''
                    \<or> contains (lower user_message) ''half hour''
                 then appointment_data\<lparr>duration_minutes := 30\<rparr>
                 else if contains (lower user_message) ''45 minutes''
                 then appointment_data\<lparr>duration_minutes := 45\<rparr>
                 else if contains (lower user_message) ''90 minutes''
                          \<or> contains (lower user_message) ''1.5 hours''
                 then appointment_data\<lparr>duration_minutes := 90\<rparr>
                 else if contains (lower user_message) ''2 hours''
                          \<or> contains (lower user_message) ''120 minutes''
                 then appointment_data\<lparr>duration_minutes := 120\<rparr>
                 else appointment_data)))"

text \<open>
  \<open>_extract_appointment_data\<close>, with the database passed in and returned. The test
  \<open>if appointment_id:\<close> is false for \<open>None\<close> and for the id 0.
\<close>

definition extract_appointment_data ::
  "datetime \<Rightarrow> string \<Rightarrow> string \<Rightarrow> int \<Rightarrow> database \<Rightarrow> appointment_data option \<times> database" where
  "extract_appointment_data now user_message bot_response user_id db =
     (if \<not> wants_to_schedule user_message then (None, db)
      else if has_details user_message \<or> bot_confirms bot_response
      then (case parse_appointment_details now user_message bot_response of
              Some appointment_data \<Rightarrow>
                (case create_appointment user_id appointment_data db of
                   (Some new_id, db') \<Rightarrow>
                     if new_id \<noteq> 0
                     then (Some (appointment_data\<lparr>appointment_id := Some new_id\<rparr>), db')
                     else (None, db')
                 | (None, db') \<Rightarrow> (None, db'))
            | None \<Rightarrow> (None, db))
      else (None, db))"

text \<open>
  The decision the spec calls \<open>shouldCreate\<close>: the message passes the test of line 128
  and the test of line 149 succeeds, so that the details are parsed and stored.
\<close>

definition should_create :: "string \<Rightarrow> string \<Rightarrow> bool" where
  "should_create user_message bot_response =
     (if \<not> wants_to_schedule user_message then False
      else has_details user_message \<or> bot_confirms bot_response)"

text \<open>
  The clock time that the loop over the time patterns reads, without the \<open>replace\<close>
  that follows it: \<open>None\<close> when no pattern matches, otherwise hour and minute of the
  first pattern that matches; and the condition that this clock time is one that
  \<open>replace\<close> accepts.
\<close>

fun find_clock ::
  "(string \<Rightarrow> re_match option) list \<Rightarrow> string \<Rightarrow> (error + nat \<times> nat) option" where
  "find_clock [] message_lower = None"
| "find_clock (pattern # rest) message_lower =
     (case re_search pattern message_lower of
        Some m \<Rightarrow> Some (clock_of_match m)
      | None \<Rightarrow> find_clock rest message_lower)"

definition clock_in_range :: "string \<Rightarrow> bool" where
  "clock_in_range message_lower =
     (case find_clock time_patterns message_lower of
        None \<Rightarrow> True
      | Some (Inl e) \<Rightarrow> False
      | Some (Inr (h, mi)) \<Rightarrow> h < 24 \<and> mi < 60)"

section \<open>Substring containment\<close>

lemma contains_iff: "contains s sub \<longleftrightarrow> (\<exists>pre post. s = pre @ sub @ post)"
proof (induction s)
  case Nil
  then show ?case by auto
next
  case (Cons x xs)
  show ?case
  proof
    assume "contains (x # xs) sub"
    then consider "prefix sub (x # xs)" | "contains xs sub" by auto
    then show "\<exists>pre post. x # xs = pre @ sub @ post"
    proof cases
      case 1
      then obtain post where "x # xs = sub @ post" by (auto simp: prefix_def)
      then have "x # xs = [] @ sub @ post" by simp
      then show ?thesis by blast
    next
      case 2
      with Cons.IH obtain pre post where "xs = pre @ sub @ post" by blast
      then have "x # xs = (x # pre) @ sub @ post" by simp
      then show ?thesis by blast
    qed
  next
    assume "\<exists>pre post. x # xs = pre @ sub @ post"
    then obtain pre post where eq: "x # xs = pre @ sub @ post" by blast
    show "contains (x # xs) sub"
    proof (cases pre)
      case Nil
      with eq have "prefix sub (x # xs)" by (simp add: prefix_def)
      then show ?thesis by simp
    next
      case (Cons y pre')
      with eq have "xs = pre' @ sub @ post" by simp
      with Cons.IH have "contains xs sub" by blast
      then show ?thesis by simp
    qed
  qed
qed

lemma any_keyword_in_iff:
  "any_keyword_in keywords text
     \<longleftrightarrow> (\<exists>k\<in>set keywords. \<exists>pre post. lower text = pre @ k @ post)"
  by (simp add: any_keyword_in_def list_ex_iff contains_iff)

lemma lower_append: "lower (a @ b) = lower a @ lower b"
  by (simp add: lower_def)

section \<open>The scheduling gate\<close>

text \<open>
  C4. A user message that contains none of the scheduling keywords yields no
  appointment, whatever the assistant's reply says: \<open>_extract_appointment_data\<close>
  returns \<open>None\<close> at once, the decision to create is false, and the database is left
  exactly as it was (neither the details are parsed nor a row is inserted).
\<close>

theorem gate_blocks_without_keyword:
  assumes "\<forall>keyword\<in>set appointment_keywords. \<not> contains (lower user_message) keyword"
  shows "extract_appointment_data now user_message bot_response user_id db = (None, db)
         \<and> \<not> should_create user_message bot_response"
proof -
  from assms have "\<not> wants_to_schedule user_message"
    by (simp add: wants_to_schedule_def any_keyword_in_def list_ex_iff)
  then show ?thesis
    by (simp add: extract_appointment_data_def should_create_def)
qed

theorem gate_blocks_without_keyword_witness:
  "\<not> (\<exists>keyword\<in>set appointment_keywords. contains (lower ''Hello there'') keyword)
   \<and> bot_confirms ''I have booked and confirmed it''
   \<and> extract_appointment_data (mk_datetime 2024 1 1 0 0 0) ''Hello there''
        ''I have booked and confirmed it'' 7
        \<lparr>db_available = True, db_rows = [], db_next_id = 1,
         db_outcome = (\<lambda>row. Committed)\<rparr>
      = (None, \<lparr>db_available = True, db_rows = [], db_next_id = 1,
         db_outcome = (\<lambda>row. Committed)\<rparr>)
   \<and> \<not> should_create ''Hello there'' ''I have booked and confirmed it''"
proof -
  have h: "\<forall>keyword\<in>set appointment_keywords. \<not> contains (lower ''Hello there'') keyword"
    by code_simp
  have c: "bot_confirms ''I have booked and confirmed it''"
    by code_simp
  show ?thesis
    using h c gate_blocks_without_keyword [OF h] by simp
qed

section \<open>The bot-confirmation path\<close>

text \<open>
  C5, as the spec states it, fails: for the user text "just checking in" and the reply
  "Your appointment has been confirmed for Friday" the decision to create is false.
\<close>

theorem just_checking_in_counterexample:
  "\<not> should_create ''just checking in'' ''Your appointment has been confirmed for Friday''"
  by code_simp

text \<open>
  C5, amended. On that pair of texts the reply does confirm and the user text has no
  details, but the user text has no scheduling keyword either, so
  \<open>_extract_appointment_data\<close> returns \<open>None\<close> at line 129 and touches nothing. The
  confirmation alone decides only for a user text that passes the gate: for "book it",
  which has no details, the same reply makes the decision true.
\<close>

theorem bot_confirmation_needs_gate:
  "bot_confirms ''Your appointment has been confirmed for Friday''
   \<and> \<not> has_details ''just checking in''
   \<and> \<not> wants_to_schedule ''just checking in''
   \<and> extract_appointment_data now ''just checking in''
        ''Your appointment has been confirmed for Friday'' user_id db = (None, db)
   \<and> wants_to_schedule ''book it''
   \<and> \<not> has_details ''book it''
   \<and> should_create ''book it'' ''Your appointment has been confirmed for Friday''"
proof -
  have a: "bot_confirms ''Your appointment has been confirmed for Friday''" by code_simp
  have b: "\<not> has_details ''just checking in''" by code_simp
  have c: "\<not> wants_to_schedule ''just checking in''" by code_simp
  have d: "wants_to_schedule ''book it''" by code_simp
  have e: "\<not> has_details ''book it''" by code_simp
  show ?thesis
    using a b c d e by (simp add: extract_appointment_data_def should_create_def)
qed

section \<open>Keywords are matched as substrings\<close>

text \<open>
  C10. The three keyword tests are substring containment in the lower-cased text, with
  no word boundaries: each is true exactly when some keyword of its list occurs
  anywhere in the lower-cased text. So a user text with "am" inside a longer word, such
  as "exam" or "team", has details, and "book" inside "facebook" or "visit" inside
  "revisit" passes the scheduling gate, whatever stands before and after the word.
\<close>

theorem keywords_match_as_substrings:
  "(wants_to_schedule user_message
      \<longleftrightarrow> (\<exists>k\<in>set appointment_keywords. \<exists>pre post. lower user_message = pre @ k @ post))
   \<and> (has_details user_message
      \<longleftrightarrow> (\<exists>k\<in>set detail_keywords. \<exists>pre post. lower user_message = pre @ k @ post))
   \<and> (bot_confirms bot_response
      \<longleftrightarrow> (\<exists>k\<in>set confirmation_keywords. \<exists>pre post. lower bot_response = pre @ k @ post))
   \<and> ((\<exists>pre post. lower user_message = pre @ ''am'' @ post) \<longrightarrow> has_details user_message)
   \<and> has_details (before @ ''exam'' @ after)
   \<and> has_details (before @ ''team'' @ after)
   \<and> wants_to_schedule (before @ ''facebook'' @ after)
   \<and> wants_to_schedule (before @ ''revisit'' @ after)"
proof -
  have am: "''am'' \<in> set detail_keywords"
    by (simp add: detail_keywords_def)
  have book: "''book'' \<in> set appointment_keywords"
    by (simp add: appointment_keywords_def)
  have visit: "''visit'' \<in> set appointment_keywords"
    by (simp add: appointment_keywords_def)
  have l1: "lower ''exam'' = ''ex'' @ ''am'' @ []" by code_simp
  have l2: "lower ''team'' = ''te'' @ ''am'' @ []" by code_simp
  have l3: "lower ''facebook'' = ''face'' @ ''book'' @ []" by code_simp
  have l4: "lower ''revisit'' = ''re'' @ ''visit'' @ []" by code_simp
  have e1: "lower (before @ ''exam'' @ after) = (lower before @ ''ex'') @ ''am'' @ lower after"
    by (simp only: lower_append l1 append_assoc append_Nil)
  have e2: "lower (before @ ''team'' @ after) = (lower before @ ''te'') @ ''am'' @ lower after"
    by (simp only: lower_append l2 append_assoc append_Nil)
  have e3: "lower (before @ ''facebook'' @ after)
              = (lower before @ ''face'') @ ''book'' @ lower after"
    by (simp only: lower_append l3 append_assoc append_Nil)
  have e4: "lower (before @ ''revisit'' @ after)
              = (lower before @ ''re'') @ ''visit'' @ lower after"
    by (simp only: lower_append l4 append_assoc append_Nil)
  have d: "(\<exists>pre post. lower user_message = pre @ ''am'' @ post) \<longrightarrow> has_details user_message"
    unfolding has_details_def any_keyword_in_iff using am by blast
  have h1: "has_details (before @ ''exam'' @ after)"
    unfolding has_details_def any_keyword_in_iff using am e1 by blast
  have h2: "has_details (before @ ''team'' @ after)"
    unfolding has_details_def any_keyword_in_iff using am e2 by blast
  have h3: "wants_to_schedule (before @ ''facebook'' @ after)"
    unfolding wants_to_schedule_def any_keyword_in_iff using book e3 by blast
  have h4: "wants_to_schedule (before @ ''revisit'' @ after)"
    unfolding wants_to_schedule_def any_keyword_in_iff using visit e4 by blast
  show ?thesis
    using d h1 h2 h3 h4
    by (simp only: wants_to_schedule_def has_details_def bot_confirms_def
          any_keyword_in_iff simp_thms)
qed

theorem keywords_match_as_substrings_witness:
  "(\<exists>pre post. lower ''My Team Exam'' = pre @ ''am'' @ post)
   \<and> has_details ''My Team Exam''
   \<and> has_details (''my '' @ ''exam'' @ '' is hard'')
   \<and> wants_to_schedule (''on '' @ ''facebook'' @ '' again'')"
proof -
  have l: "lower ''My Team Exam'' = ''my te'' @ ''am'' @ '' exam''" by code_simp
  then have h: "\<exists>pre post. lower ''My Team Exam'' = pre @ ''am'' @ post" by blast
  from keywords_match_as_substrings [of "''My Team Exam''" _ "''my ''" "'' is hard''"]
  have "(\<exists>pre post. lower ''My Team Exam'' = pre @ ''am'' @ post) \<longrightarrow> has_details ''My Team Exam''"
    and "has_details (''my '' @ ''exam'' @ '' is hard'')"
    by blast+
  moreover from keywords_match_as_substrings [of _ _ "''on ''" "'' again''"]
  have "wants_to_schedule (''on '' @ ''facebook'' @ '' again'')"
    by blast
  ultimately show ?thesis using h by blast
qed

section \<open>Evaluation of dates\<close>

lemmas date_defs = then_do_def add_days_def at_ten_def replace_time_def replace_hour_minute_def
  mk_datetime_def ymd2ord_def days_before_year_def days_before_month_def DAYS_BEFORE_MONTH_def
  DAYS_IN_MONTH_def is_leap_def MAXORDINAL_def weekday_def days_ahead_def

lemma isl_then_do: "(\<And>x. isl (f x)) \<Longrightarrow> isl (then_do r f)"
  by (cases r) (simp_all add: then_do_def)


section \<open>Clock times out of range\<close>

lemma clock_77_88: "apply_time_patterns time_patterns ''77:88'' base_date = Inl ValueError"
proof -
  have rs: "re_search match_hour_minute ''77:88''
              = Some \<lparr>group0 = ''77:88'', groups = [Some ''77'', Some ''88'', None]\<rparr>"
    by code_simp
  have ck: "clock_of_match \<lparr>group0 = ''77:88'', groups = [Some ''77'', Some ''88'', None]\<rparr>
              = Inr (77, 88)"
    by code_simp
  show ?thesis
    unfolding time_patterns_def apply_time_patterns.simps rs
    by (simp add: ck then_do_def replace_hour_minute_def replace_time_def)
qed

lemma clock_13_pm: "apply_time_patterns time_patterns ''13 pm'' base_date = Inl ValueError"
proof -
  have r1: "re_search match_hour_minute ''13 pm'' = None"
    by code_simp
  have r2: "re_search match_hour_ampm ''13 pm''
              = Some \<lparr>group0 = ''13 pm'', groups = [Some ''13'', Some ''pm'']\<rparr>"
    by code_simp
  have ck: "clock_of_match \<lparr>group0 = ''13 pm'', groups = [Some ''13'', Some ''pm'']\<rparr>
              = Inr (25, 0)"
    by code_simp
  show ?thesis
    unfolding time_patterns_def apply_time_patterns.simps r1 r2
    by (simp add: ck then_do_def replace_hour_minute_def replace_time_def)
qed

text \<open>
  C1 does not hold of the code: a clock pattern with an hour above 23 (after the am/pm
  conversion) or a minute above 59 reaches \<open>replace\<close>, which raises \<open>ValueError\<close>, and
  \<open>_parse_date_time\<close> has no handler. For the texts "77:88" and "13 pm" the function
  returns no timestamp at any reference time, and \<open>_parse_appointment_details\<close>, which
  catches the exception, answers \<open>None\<close>.
\<close>

theorem out_of_range_clock_raises:
  "isl (parse_date_time now ''77:88'')
   \<and> isl (parse_date_time now ''13 pm'')
   \<and> parse_date_time (mk_datetime 2024 1 3 15 0 0) ''77:88'' = Inl ValueError
   \<and> parse_date_time (mk_datetime 2024 1 3 15 0 0) ''13 pm'' = Inl ValueError
   \<and> parse_appointment_details now ''77:88'' bot_response = None"
proof -
  have l1: "lower ''77:88'' = ''77:88''" by code_simp
  have l2: "lower ''13 pm'' = ''13 pm''" by code_simp
  have v1: "isl (parse_date_time_value now ''77:88'')"
    unfolding parse_date_time_value_def Let_def l1
    by (rule isl_then_do) (simp add: clock_77_88 then_do_def)
  have v2: "isl (parse_date_time_value now ''13 pm'')"
    unfolding parse_date_time_value_def Let_def l2
    by (rule isl_then_do) (simp add: clock_13_pm then_do_def)
  have a: "isl (parse_date_time now ''77:88'')"
    using v1 by (cases "parse_date_time_value now ''77:88''") (simp_all add: parse_date_time_def then_do_def)
  have b: "isl (parse_date_time now ''13 pm'')"
    using v2 by (cases "parse_date_time_value now ''13 pm''") (simp_all add: parse_date_time_def then_do_def)
  have rb1: "resolve_base_date (mk_datetime 2024 1 3 15 0 0) ''77:88''
              = Inr \<lparr>ordinal = 738889, hour = 10, minute = 0, second = 0, microsecond = 0\<rparr>"
    by (simp add: resolve_base_date_def date_defs days_of_week_def)
  have rb2: "resolve_base_date (mk_datetime 2024 1 3 15 0 0) ''13 pm''
              = Inr \<lparr>ordinal = 738889, hour = 10, minute = 0, second = 0, microsecond = 0\<rparr>"
    by (simp add: resolve_base_date_def date_defs days_of_week_def)
  have c: "parse_date_time (mk_datetime 2024 1 3 15 0 0) ''77:88'' = Inl ValueError"
    by (simp add: parse_date_time_def parse_date_time_value_def l1 rb1 clock_77_88 then_do_def)
  have d: "parse_date_time (mk_datetime 2024 1 3 15 0 0) ''13 pm'' = Inl ValueError"
    by (simp add: parse_date_time_def parse_date_time_value_def l2 rb2 clock_13_pm then_do_def)
  have e: "parse_appointment_details now ''77:88'' bot_response = None"
    using a by (cases "parse_date_time now ''77:88''") (simp_all add: parse_appointment_details_def Let_def)
  show ?thesis using a b c d e by simp
qed


section \<open>The end-to-end example\<close>

text \<open>
  C9. For the user text "Can I schedule a consultation tomorrow at 2:30 PM for 45
  minutes", an empty reply and the reference time 2024-01-01T00:00:00, the decision to
  create is true and the parsed details have type consultation, duration 45 minutes and
  date 2024-01-02T14:30:00. \<open>_extract_appointment_data\<close> returns these details, with
  the id the database gave, after inserting them into a database that can be reached
  and commits the insert.
\<close>

theorem consultation_tomorrow_example:
  "should_create ''Can I schedule a consultation tomorrow at 2:30 PM for 45 minutes'' ''''
   \<and> parse_appointment_details (mk_datetime 2024 1 1 0 0 0)
        ''Can I schedule a consultation tomorrow at 2:30 PM for 45 minutes'' ''''
      = Some \<lparr>title = ''Consultation'',
               description = ''Can I schedule a consultation tomorrow at 2:30 PM for 45 minutes'',
               appointment_type = ''consultation'', duration_minutes = 45, location = None,
               appt_notes = None, appointment_date = ''2024-01-02T14:30:00'',
               appointment_id = None\<rparr>
   \<and> extract_appointment_data (mk_datetime 2024 1 1 0 0 0)
        ''Can I schedule a consultation tomorrow at 2:30 PM for 45 minutes'' '''' 7
        \<lparr>db_available = True, db_rows = [], db_next_id = 1,
         db_outcome = (\<lambda>row. Committed)\<rparr>
      = (Some \<lparr>title = ''Consultation'',
               description = ''Can I schedule a consultation tomorrow at 2:30 PM for 45 minutes'',
               appointment_type = ''consultation'', duration_minutes = 45, location = None,
               appt_notes = None, appointment_date = ''2024-01-02T14:30:00'',
               appointment_id = Some 1\<rparr>,
         \<lparr>db_available = True,
          db_rows = [\<lparr>row_id = 1, row_user_id = 7, row_title = ''Consultation'',
                      row_description =
                        ''Can I schedule a consultation tomorrow at 2:30 PM for 45 minutes'',
                      row_appointment_date = ''2024-01-02T14:30:00'',
                      row_duration_minutes = 45, row_appointment_type = ''consultation'',
                      row_location = None, row_notes = None, row_status = ''pending''\<rparr>],
          db_next_id = 2,
          db_outcome = (\<lambda>row. Committed)\<rparr>)"
proof -
  let ?msg = "''Can I schedule a consultation tomorrow at 2:30 PM for 45 minutes''"
  let ?low = "''can i schedule a consultation tomorrow at 2:30 pm for 45 minutes''"
  have lw: "lower ?msg = ?low" by code_simp
  have gate: "wants_to_schedule ?msg" by code_simp
  have det: "has_details ?msg" by code_simp
  have rb: "resolve_base_date (mk_datetime 2024 1 1 0 0 0) ?low
              = Inr \<lparr>ordinal = 738887, hour = 10, minute = 0, second = 0, microsecond = 0\<rparr>"
    by (simp add: resolve_base_date_def date_defs days_of_week_def)
  have rs: "re_search match_hour_minute ?low
              = Some \<lparr>group0 = ''2:30 pm'', groups = [Some ''2'', Some ''30'', Some ''pm'']\<rparr>"
    by code_simp
  have ck: "clock_of_match \<lparr>group0 = ''2:30 pm'', groups = [Some ''2'', Some ''30'', Some ''pm'']\<rparr>
              = Inr (14, 30)"
    by code_simp
  have tp: "apply_time_patterns time_patterns ?low
              \<lparr>ordinal = 738887, hour = 10, minute = 0, second = 0, microsecond = 0\<rparr>
            = Inr \<lparr>ordinal = 738887, hour = 14, minute = 30, second = 0, microsecond = 0\<rparr>"
    unfolding time_patterns_def apply_time_patterns.simps rs
    by (simp add: ck then_do_def replace_hour_minute_def replace_time_def)
  have td: "apply_time_descriptions ?low
              \<lparr>ordinal = 738887, hour = 14, minute = 30, second = 0, microsecond = 0\<rparr>
            = Inr \<lparr>ordinal = 738887, hour = 14, minute = 30, second = 0, microsecond = 0\<rparr>"
    by (simp add: apply_time_descriptions_def)
  have iso: "isoformat \<lparr>ordinal = 738887, hour = 14, minute = 30, second = 0, microsecond = 0\<rparr>
              = ''2024-01-02T14:30:00''"
    by code_simp
  have pdt: "parse_date_time (mk_datetime 2024 1 1 0 0 0) ?msg = Inr ''2024-01-02T14:30:00''"
    by (simp add: parse_date_time_def parse_date_time_value_def lw rb tp td iso then_do_def)
  have ty1: "\<not> any_keyword_in [''medical'', ''doctor'', ''checkup'', ''health''] ?msg"
    by code_simp
  have ty2: "any_keyword_in [''consultation'', ''consult''] ?msg"
    by code_simp
  have du1: "\<not> contains ?low ''30 minutes''" "\<not> contains ?low ''half hour''"
    "contains ?low ''45 minutes''"
    by simp_all
  have pad: "parse_appointment_details (mk_datetime 2024 1 1 0 0 0) ?msg ''''
      = Some \<lparr>title = ''Consultation'', description = ?msg,
               appointment_type = ''consultation'', duration_minutes = 45, location = None,
               appt_notes = None, appointment_date = ''2024-01-02T14:30:00'',
               appointment_id = None\<rparr>"
    by (simp add: parse_appointment_details_def pdt ty1 ty2 lw du1)
  have sc: "should_create ?msg ''''"
    by (simp add: should_create_def gate det)
  show ?thesis
    by (simp add: sc pad extract_appointment_data_def gate det create_appointment_def
          has_nul_parameter_def has_nul_def inserted_row_def)
qed


section \<open>Lemmas on the date and the clock\<close>

lemma weekday_range: "0 \<le> weekday now \<and> weekday now < 7"
  by (simp add: weekday_def)

lemma days_ahead_range:
  assumes "0 \<le> n" "n < 7"
  shows "1 \<le> days_ahead n now \<and> days_ahead n now \<le> 7"
  using assms weekday_range [of now] by (simp add: days_ahead_def Let_def)

lemma days_ahead_same_day: "days_ahead (weekday now) now = 7"
  by (simp add: days_ahead_def)

lemma find_day_Some:
  "find_day tab msg = Some (name, n) \<Longrightarrow> (name, n) \<in> set tab \<and> contains msg name"
  by (induction tab msg rule: find_day.induct) (auto split: if_splits)

lemma find_day_first:
  assumes "i < length tab" "contains msg (fst (tab ! i))"
    and "\<forall>j<i. \<not> contains msg (fst (tab ! j))"
  shows "find_day tab msg = Some (tab ! i)"
  using assms
proof (induction tab msg arbitrary: i rule: find_day.induct)
  case (1 message_lower)
  then show ?case by simp
next
  case (2 day_name day_num rest message_lower)
  show ?case
  proof (cases i)
    case 0
    with 2 show ?thesis by simp
  next
    case (Suc k)
    with 2 have "\<not> contains message_lower day_name" by fastforce
    moreover have "find_day rest message_lower = Some (rest ! k)"
    proof (rule "2.IH")
      show "\<not> contains message_lower day_name" by fact
      show "k < length rest" using 2 Suc by simp
      show "contains message_lower (fst (rest ! k))" using 2 Suc by simp
      show "\<forall>j<k. \<not> contains message_lower (fst (rest ! j))"
        using "2.prems"(3) Suc by fastforce
    qed
    ultimately show ?thesis using Suc by simp
  qed
qed

lemma day_num_range: "(name, n) \<in> set days_of_week \<Longrightarrow> 0 \<le> n \<and> n < 7"
  by (auto simp: days_of_week_def)

lemma add_days_in_range:
  assumes "0 < ordinal now" "ordinal now + 7 \<le> MAXORDINAL" "0 \<le> k" "k \<le> 7"
  shows "add_days now k = Inr (now\<lparr>ordinal := ordinal now + k\<rparr>)"
  using assms by (simp add: add_days_def)

lemma at_ten_eq:
  "at_ten d = Inr (d\<lparr>hour := 10, minute := 0, second := 0, microsecond := 0\<rparr>)"
  by (simp add: at_ten_def replace_time_def)

lemma resolve_base_date_day:
  assumes "0 < ordinal now" "ordinal now + 7 \<le> MAXORDINAL"
    and "find_day days_of_week msg = Some (name, n)"
  shows "resolve_base_date now msg
           = Inr \<lparr>ordinal = ordinal now + days_ahead n now, hour = 10, minute = 0,
                  second = 0, microsecond = 0\<rparr>"
proof -
  from assms(3) have "0 \<le> n \<and> n < 7"
    using find_day_Some day_num_range by blast
  then have r: "1 \<le> days_ahead n now \<and> days_ahead n now \<le> 7"
    using days_ahead_range by blast
  then have a: "add_days now (days_ahead n now)
                  = Inr (now\<lparr>ordinal := ordinal now + days_ahead n now\<rparr>)"
    using add_days_in_range [OF assms(1,2)] by simp
  have b: "add_days now 1 = Inr (now\<lparr>ordinal := ordinal now + 1\<rparr>)"
    using add_days_in_range [OF assms(1,2)] by simp
  show ?thesis
    by (simp add: resolve_base_date_def assms(3) a b at_ten_eq then_do_def)
qed

lemma resolve_base_date_no_day:
  assumes "0 < ordinal now" "ordinal now + 7 \<le> MAXORDINAL"
    and "find_day days_of_week msg = None"
  shows "resolve_base_date now msg
           = Inr \<lparr>ordinal = ordinal now + (if contains msg ''today'' then 0 else 1),
                  hour = 10, minute = 0, second = 0, microsecond = 0\<rparr>"
proof -
  have b: "add_days now 1 = Inr (now\<lparr>ordinal := ordinal now + 1\<rparr>)"
    using add_days_in_range [OF assms(1,2)] by simp
  show ?thesis
    by (simp add: resolve_base_date_def assms(3) b at_ten_eq then_do_def)
qed


lemma find_day_None_iff:
  "find_day tab msg = None \<longleftrightarrow> \<not> (\<exists>day\<in>set tab. contains msg (fst day))"
  by (induction tab msg rule: find_day.induct) auto

lemma days_of_week_nth: "i < 7 \<Longrightarrow> snd (days_of_week ! i) = int i"
proof -
  assume "i < 7"
  then have "i = 0 \<or> i = 1 \<or> i = 2 \<or> i = 3 \<or> i = 4 \<or> i = 5 \<or> i = 6" by arith
  then show ?thesis by (auto simp: days_of_week_def)
qed

lemma find_day_nth:
  assumes "i < 7" "contains msg (fst (days_of_week ! i))"
    and "\<forall>j<i. \<not> contains msg (fst (days_of_week ! j))"
  shows "find_day days_of_week msg = Some (fst (days_of_week ! i), int i)"
proof -
  have "length days_of_week = 7" by (simp add: days_of_week_def)
  with assms have "find_day days_of_week msg = Some (days_of_week ! i)"
    by (simp add: find_day_first)
  moreover have "days_of_week ! i = (fst (days_of_week ! i), int i)"
    using days_of_week_nth [OF assms(1)] by (simp add: prod_eq_iff)
  ultimately show ?thesis by simp
qed

lemma apply_time_patterns_find_clock:
  "apply_time_patterns ps msg base
     = (case find_clock ps msg of
          None \<Rightarrow> Inr base
        | Some c \<Rightarrow> then_do c (\<lambda>(h, mi). replace_hour_minute base h mi))"
  by (induction ps msg base rule: apply_time_patterns.induct) (auto split: option.splits)

lemma resolve_base_date_shape:
  assumes "0 < ordinal now" and "ordinal now + 7 \<le> MAXORDINAL"
  shows "\<exists>k. 0 \<le> k \<and> k \<le> 7
           \<and> (k = 0 \<longleftrightarrow> contains msg ''today''
                          \<and> \<not> (\<exists>day\<in>set days_of_week. contains msg (fst day)))
           \<and> resolve_base_date now msg
               = Inr \<lparr>ordinal = ordinal now + k, hour = 10, minute = 0, second = 0,
                      microsecond = 0\<rparr>"
proof (cases "find_day days_of_week msg")
  case None
  then have n: "\<not> (\<exists>day\<in>set days_of_week. contains msg (fst day))"
    by (simp add: find_day_None_iff)
  let ?k = "if contains msg ''today'' then 0 else (1::int)"
  have "0 \<le> ?k \<and> ?k \<le> 7 \<and> (?k = 0 \<longleftrightarrow> contains msg ''today''
          \<and> \<not> (\<exists>day\<in>set days_of_week. contains msg (fst day)))"
    using n by simp
  moreover have "resolve_base_date now msg
      = Inr \<lparr>ordinal = ordinal now + ?k, hour = 10, minute = 0, second = 0, microsecond = 0\<rparr>"
    by (rule resolve_base_date_no_day [OF assms None])
  ultimately show ?thesis by blast
next
  case (Some a)
  obtain name n where a: "a = (name, n)" by (cases a)
  with Some have f: "find_day days_of_week msg = Some (name, n)" by simp
  then have m: "(name, n) \<in> set days_of_week \<and> contains msg name"
    by (rule find_day_Some)
  then have "0 \<le> n \<and> n < 7" using day_num_range by blast
  then have r: "1 \<le> days_ahead n now \<and> days_ahead n now \<le> 7"
    using days_ahead_range by blast
  from m have "\<exists>day\<in>set days_of_week. contains msg (fst day)" by force
  with r have "0 \<le> days_ahead n now \<and> days_ahead n now \<le> 7
      \<and> (days_ahead n now = 0 \<longleftrightarrow> contains msg ''today''
            \<and> \<not> (\<exists>day\<in>set days_of_week. contains msg (fst day)))"
    by simp
  moreover have "resolve_base_date now msg
      = Inr \<lparr>ordinal = ordinal now + days_ahead n now, hour = 10, minute = 0, second = 0,
             microsecond = 0\<rparr>"
    by (rule resolve_base_date_day [OF assms f])
  ultimately show ?thesis by blast
qed

lemma apply_time_patterns_in_range:
  assumes "clock_in_range msg"
  shows "\<exists>h mi. h < 24 \<and> mi < 60
           \<and> (find_clock time_patterns msg = None \<longrightarrow> h = 10 \<and> mi = 0)
           \<and> apply_time_patterns time_patterns msg
                \<lparr>ordinal = k, hour = 10, minute = 0, second = 0, microsecond = 0\<rparr>
              = Inr \<lparr>ordinal = k, hour = h, minute = mi, second = 0, microsecond = 0\<rparr>"
proof (cases "find_clock time_patterns msg")
  case None
  then have "apply_time_patterns time_patterns msg
                \<lparr>ordinal = k, hour = 10, minute = 0, second = 0, microsecond = 0\<rparr>
              = Inr \<lparr>ordinal = k, hour = 10, minute = 0, second = 0, microsecond = 0\<rparr>"
    by (simp add: apply_time_patterns_find_clock)
  then show ?thesis by force
next
  case (Some c)
  with assms obtain h mi where c: "c = Inr (h, mi)" and b: "h < 24 \<and> mi < 60"
    by (auto simp: clock_in_range_def split: sum.splits)
  have "apply_time_patterns time_patterns msg
                \<lparr>ordinal = k, hour = 10, minute = 0, second = 0, microsecond = 0\<rparr>
              = Inr \<lparr>ordinal = k, hour = h, minute = mi, second = 0, microsecond = 0\<rparr>"
    using Some c b
    by (simp add: apply_time_patterns_find_clock then_do_def replace_hour_minute_def
          replace_time_def)
  with b Some show ?thesis by force
qed

lemma apply_time_descriptions_eq:
  "apply_time_descriptions msg
     \<lparr>ordinal = k, hour = h, minute = mi, second = 0, microsecond = 0\<rparr>
   = Inr \<lparr>ordinal = k,
          hour = (if contains msg ''morning'' then 9
                  else if contains msg ''afternoon'' then 14
                  else if contains msg ''evening'' then 18 else h),
          minute = (if contains msg ''morning'' \<or> contains msg ''afternoon''
                       \<or> contains msg ''evening'' then 0 else mi),
          second = 0, microsecond = 0\<rparr>"
  by (simp add: apply_time_descriptions_def replace_hour_minute_def replace_time_def)

lemma parse_date_time_value_shape:
  assumes "0 < ordinal now" and "ordinal now + 7 \<le> MAXORDINAL"
    and "clock_in_range (lower text)"
  shows "\<exists>k h mi. 0 \<le> k \<and> k \<le> 7
           \<and> (k = 0 \<longleftrightarrow> contains (lower text) ''today''
                          \<and> \<not> (\<exists>day\<in>set days_of_week. contains (lower text) (fst day)))
           \<and> resolve_base_date now (lower text)
               = Inr \<lparr>ordinal = ordinal now + k, hour = 10, minute = 0, second = 0,
                      microsecond = 0\<rparr>
           \<and> h < 24 \<and> mi < 60
           \<and> (find_clock time_patterns (lower text) = None \<longrightarrow> h = 10 \<and> mi = 0)
           \<and> parse_date_time_value now text
               = Inr \<lparr>ordinal = ordinal now + k,
                      hour = (if contains (lower text) ''morning'' then 9
                              else if contains (lower text) ''afternoon'' then 14
                              else if contains (lower text) ''evening'' then 18 else h),
                      minute = (if contains (lower text) ''morning''
                                   \<or> contains (lower text) ''afternoon''
                                   \<or> contains (lower text) ''evening'' then 0 else mi),
                      second = 0, microsecond = 0\<rparr>"
proof -
  from resolve_base_date_shape [OF assms(1,2), of "lower text"]
  obtain k where k: "0 \<le> k \<and> k \<le> 7"
    and k0: "k = 0 \<longleftrightarrow> contains (lower text) ''today''
                    \<and> \<not> (\<exists>day\<in>set days_of_week. contains (lower text) (fst day))"
    and rb: "resolve_base_date now (lower text)
               = Inr \<lparr>ordinal = ordinal now + k, hour = 10, minute = 0, second = 0,
                      microsecond = 0\<rparr>"
    by blast
  from apply_time_patterns_in_range [OF assms(3), of "ordinal now + k"]
  obtain h mi where b: "h < 24 \<and> mi < 60"
    and d: "find_clock time_patterns (lower text) = None \<longrightarrow> h = 10 \<and> mi = 0"
    and tp: "apply_time_patterns time_patterns (lower text)
                \<lparr>ordinal = ordinal now + k, hour = 10, minute = 0, second = 0, microsecond = 0\<rparr>
              = Inr \<lparr>ordinal = ordinal now + k, hour = h, minute = mi, second = 0,
                     microsecond = 0\<rparr>"
    by (elim exE conjE) (rule that, simp_all)
  have "parse_date_time_value now text
               = Inr \<lparr>ordinal = ordinal now + k,
                      hour = (if contains (lower text) ''morning'' then 9
                              else if contains (lower text) ''afternoon'' then 14
                              else if contains (lower text) ''evening'' then 18 else h),
                      minute = (if contains (lower text) ''morning''
                                   \<or> contains (lower text) ''afternoon''
                                   \<or> contains (lower text) ''evening'' then 0 else mi),
                      second = 0, microsecond = 0\<rparr>"
    unfolding parse_date_time_value_def Let_def rb
    by (simp only: then_do_def sum.case tp apply_time_descriptions_eq)
  with k k0 rb b d show ?thesis
    by - (rule exI [of _ k], rule exI [of _ h], rule exI [of _ mi], simp)
qed

lemma apply_time_patterns_exact:
  assumes "clock_in_range msg"
  shows "apply_time_patterns time_patterns msg
            \<lparr>ordinal = k, hour = 10, minute = 0, second = 0, microsecond = 0\<rparr>
          = Inr \<lparr>ordinal = k,
                 hour = (case find_clock time_patterns msg of
                           Some (Inr (h, mi)) \<Rightarrow> h | _ \<Rightarrow> 10),
                 minute = (case find_clock time_patterns msg of
                             Some (Inr (h, mi)) \<Rightarrow> mi | _ \<Rightarrow> 0),
                 second = 0, microsecond = 0\<rparr>"
proof (cases "find_clock time_patterns msg")
  case None
  then show ?thesis by (simp add: apply_time_patterns_find_clock)
next
  case (Some c)
  with assms obtain h mi where c: "c = Inr (h, mi)" and b: "h < 24 \<and> mi < 60"
    by (auto simp: clock_in_range_def split: sum.splits)
  show ?thesis
    using Some c b
    by (simp add: apply_time_patterns_find_clock then_do_def replace_hour_minute_def
          replace_time_def)
qed

lemma parse_date_time_value_exact:
  assumes "0 < ordinal now" and "ordinal now + 7 \<le> MAXORDINAL"
    and "clock_in_range (lower text)"
  shows "\<exists>k. 0 \<le> k \<and> k \<le> 7
           \<and> (k = 0 \<longleftrightarrow> contains (lower text) ''today''
                          \<and> \<not> (\<exists>day\<in>set days_of_week. contains (lower text) (fst day)))
           \<and> parse_date_time_value now text
               = Inr \<lparr>ordinal = ordinal now + k,
                      hour = (if contains (lower text) ''morning'' then 9
                              else if contains (lower text) ''afternoon'' then 14
                              else if contains (lower text) ''evening'' then 18
                              else case find_clock time_patterns (lower text) of
                                     Some (Inr (h, mi)) \<Rightarrow> h | _ \<Rightarrow> 10),
                      minute = (if contains (lower text) ''morning''
                                   \<or> contains (lower text) ''afternoon''
                                   \<or> contains (lower text) ''evening'' then 0
                                else case find_clock time_patterns (lower text) of
                                       Some (Inr (h, mi)) \<Rightarrow> mi | _ \<Rightarrow> 0),
                      second = 0, microsecond = 0\<rparr>"
proof -
  from resolve_base_date_shape [OF assms(1,2), of "lower text"]
  obtain k where k: "0 \<le> k \<and> k \<le> 7"
    and k0: "k = 0 \<longleftrightarrow> contains (lower text) ''today''
                    \<and> \<not> (\<exists>day\<in>set days_of_week. contains (lower text) (fst day))"
    and rb: "resolve_base_date now (lower text)
               = Inr \<lparr>ordinal = ordinal now + k, hour = 10, minute = 0, second = 0,
                      microsecond = 0\<rparr>"
    by blast
  note tp = apply_time_patterns_exact [OF assms(3), of "ordinal now + k"]
  have "parse_date_time_value now text
               = Inr \<lparr>ordinal = ordinal now + k,
                      hour = (if contains (lower text) ''morning'' then 9
                              else if contains (lower text) ''afternoon'' then 14
                              else if contains (lower text) ''evening'' then 18
                              else case find_clock time_patterns (lower text) of
                                     Some (Inr (h, mi)) \<Rightarrow> h | _ \<Rightarrow> 10),
                      minute = (if contains (lower text) ''morning''
                                   \<or> contains (lower text) ''afternoon''
                                   \<or> contains (lower text) ''evening'' then 0
                                else case find_clock time_patterns (lower text) of
                                       Some (Inr (h, mi)) \<Rightarrow> mi | _ \<Rightarrow> 0),
                      second = 0, microsecond = 0\<rparr>"
    unfolding parse_date_time_value_def Let_def rb
    by (simp only: then_do_def sum.case tp apply_time_descriptions_eq)
  with k k0 show ?thesis
    by - (rule exI [of _ k], simp)
qed

lemma now_valid:
  "0 < ordinal (mk_datetime 2024 1 3 15 0 0)"
  "ordinal (mk_datetime 2024 1 3 15 0 0) + 7 \<le> MAXORDINAL"
  by (simp_all add: date_defs)

section \<open>Base-date resolution\<close>

text \<open>
  C3, as the spec states it, fails: a day name is looked for after the words "today" and
  "tomorrow" and, when one is found, replaces the date they gave. On Wednesday
  2024-01-03 the text "today or monday" resolves to Monday 2024-01-08, not to
  2024-01-03.
\<close>

theorem today_with_weekday_counterexample:
  "contains (lower ''today or monday'') ''today''
   \<and> resolve_base_date (mk_datetime 2024 1 3 15 0 0) (lower ''today or monday'')
       = Inr (mk_datetime 2024 1 8 10 0 0)
   \<and> parse_date_time (mk_datetime 2024 1 3 15 0 0) ''today or monday''
       = Inr ''2024-01-08T10:00:00''"
proof -
  have l: "lower ''today or monday'' = ''today or monday''" by code_simp
  have rb: "resolve_base_date (mk_datetime 2024 1 3 15 0 0) ''today or monday''
              = Inr \<lparr>ordinal = 738893, hour = 10, minute = 0, second = 0, microsecond = 0\<rparr>"
    by (simp add: resolve_base_date_def date_defs days_of_week_def)
  have m: "mk_datetime 2024 1 8 10 0 0
              = \<lparr>ordinal = 738893, hour = 10, minute = 0, second = 0, microsecond = 0\<rparr>"
    by (simp add: date_defs)
  have fc: "find_clock time_patterns ''today or monday'' = None"
    by code_simp
  have tp: "apply_time_patterns time_patterns ''today or monday'' b = Inr b" for b
    by (simp add: apply_time_patterns_find_clock fc)
  have td: "apply_time_descriptions ''today or monday'' b = Inr b" for b
    by (simp add: apply_time_descriptions_def)
  have iso: "isoformat \<lparr>ordinal = 738893, hour = 10, minute = 0, second = 0, microsecond = 0\<rparr>
               = ''2024-01-08T10:00:00''"
    by code_simp
  show ?thesis
    by (simp add: l rb m parse_date_time_def parse_date_time_value_def tp td iso then_do_def)
qed

text \<open>
  C3, amended. For a reference time up to seven days before the last representable
  day: if the text contains a day name, the base date is the next occurrence, one to
  seven days ahead, of the first day in the order monday, ..., sunday whose name it
  contains, whether or not "today" or "tomorrow" is present; otherwise, if it contains
  "today", the base date is the reference date; otherwise (with "tomorrow" or with no
  date word) it is the reference date plus one day. In every case the time of day of
  the base date is 10:00:00.
\<close>

theorem base_date_priority:
  assumes "0 < ordinal now" and "ordinal now + 7 \<le> MAXORDINAL"
  shows "(i < 7 \<and> contains (lower text) (fst (days_of_week ! i))
              \<and> (\<forall>j<i. \<not> contains (lower text) (fst (days_of_week ! j)))
            \<longrightarrow> 1 \<le> days_ahead (int i) now \<and> days_ahead (int i) now \<le> 7
                \<and> (weekday now + days_ahead (int i) now) mod 7 = int i
                \<and> resolve_base_date now (lower text)
                    = Inr \<lparr>ordinal = ordinal now + days_ahead (int i) now, hour = 10,
                           minute = 0, second = 0, microsecond = 0\<rparr>)
       \<and> (\<not> (\<exists>day\<in>set days_of_week. contains (lower text) (fst day))
            \<and> contains (lower text) ''today''
          \<longrightarrow> resolve_base_date now (lower text)
                = Inr \<lparr>ordinal = ordinal now, hour = 10, minute = 0, second = 0,
                       microsecond = 0\<rparr>)
       \<and> (\<not> (\<exists>day\<in>set days_of_week. contains (lower text) (fst day))
            \<and> \<not> contains (lower text) ''today''
          \<longrightarrow> resolve_base_date now (lower text)
                = Inr \<lparr>ordinal = ordinal now + 1, hour = 10, minute = 0, second = 0,
                       microsecond = 0\<rparr>)"
proof (intro conjI impI)
  assume c: "i < 7 \<and> contains (lower text) (fst (days_of_week ! i))
            \<and> (\<forall>j<i. \<not> contains (lower text) (fst (days_of_week ! j)))"
  then have i: "i < 7" by simp
  have r: "1 \<le> days_ahead (int i) now \<and> days_ahead (int i) now \<le> 7"
    using i by (simp add: days_ahead_range)
  from r show "1 \<le> days_ahead (int i) now" by simp
  from r show "days_ahead (int i) now \<le> 7" by simp
  show "(weekday now + days_ahead (int i) now) mod 7 = int i"
    using i weekday_range [of now] by (simp add: days_ahead_def Let_def)
  from c have "find_day days_of_week (lower text) = Some (fst (days_of_week ! i), int i)"
    by (simp add: find_day_nth)
  then show "resolve_base_date now (lower text)
               = Inr \<lparr>ordinal = ordinal now + days_ahead (int i) now, hour = 10,
                      minute = 0, second = 0, microsecond = 0\<rparr>"
    by (rule resolve_base_date_day [OF assms])
next
  assume a: "\<not> (\<exists>day\<in>set days_of_week. contains (lower text) (fst day))
             \<and> contains (lower text) ''today''"
  then have "find_day days_of_week (lower text) = None"
    by (simp add: find_day_None_iff)
  from resolve_base_date_no_day [OF assms this] a
  show "resolve_base_date now (lower text)
          = Inr \<lparr>ordinal = ordinal now, hour = 10, minute = 0, second = 0, microsecond = 0\<rparr>"
    by simp
next
  assume a: "\<not> (\<exists>day\<in>set days_of_week. contains (lower text) (fst day))
             \<and> \<not> contains (lower text) ''today''"
  then have "find_day days_of_week (lower text) = None"
    by (simp add: find_day_None_iff)
  from resolve_base_date_no_day [OF assms this] a
  show "resolve_base_date now (lower text)
          = Inr \<lparr>ordinal = ordinal now + 1, hour = 10, minute = 0, second = 0,
                 microsecond = 0\<rparr>"
    by simp
qed

theorem base_date_priority_witness:
  "0 < ordinal (mk_datetime 2024 1 3 15 0 0)
   \<and> ordinal (mk_datetime 2024 1 3 15 0 0) + 7 \<le> MAXORDINAL
   \<and> contains (lower ''Tomorrow or Friday'') ''tomorrow''
   \<and> contains (lower ''Tomorrow or Friday'') (fst (days_of_week ! 4))
   \<and> resolve_base_date (mk_datetime 2024 1 3 15 0 0) (lower ''Tomorrow or Friday'')
       = Inr (mk_datetime 2024 1 5 10 0 0)
   \<and> contains (lower ''Later today'') ''today''
   \<and> resolve_base_date (mk_datetime 2024 1 3 15 0 0) (lower ''Later today'')
       = Inr (mk_datetime 2024 1 3 10 0 0)
   \<and> \<not> contains (lower ''See you soon'') ''today''
   \<and> resolve_base_date (mk_datetime 2024 1 3 15 0 0) (lower ''See you soon'')
       = Inr (mk_datetime 2024 1 4 10 0 0)"
proof -
  let ?now = "mk_datetime 2024 1 3 15 0 0"
  let ?t1 = "''Tomorrow or Friday''"
  let ?t2 = "''Later today''"
  let ?t3 = "''See you soon''"
  have v1: "0 < ordinal ?now" by (simp add: date_defs)
  have v2: "ordinal ?now + 7 \<le> MAXORDINAL" by (simp add: date_defs)
  have l1: "lower ?t1 = ''tomorrow or friday''" by code_simp
  have l2: "lower ?t2 = ''later today''" by code_simp
  have l3: "lower ?t3 = ''see you soon''" by code_simp
  have f: "fst (days_of_week ! 4) = ''friday''" by (simp add: days_of_week_def)
  have c0: "contains (lower ?t1) ''tomorrow''" unfolding l1 by simp
  have c1: "contains (lower ?t1) (fst (days_of_week ! 4))" unfolding l1 f by simp
  have n1: "\<forall>j<4. \<not> contains (lower ?t1) (fst (days_of_week ! j))"
  proof (intro allI impI)
    fix j :: nat
    assume "j < 4"
    then have "j = 0 \<or> j = 1 \<or> j = 2 \<or> j = 3" by arith
    then show "\<not> contains (lower ?t1) (fst (days_of_week ! j))"
      unfolding l1 by (auto simp: days_of_week_def)
  qed
  have c2: "contains (lower ?t2) ''today''" unfolding l2 by simp
  have n2: "\<not> (\<exists>day\<in>set days_of_week. contains (lower ?t2) (fst day))"
    unfolding l2 by (simp add: days_of_week_def)
  have c3: "\<not> contains (lower ?t3) ''today''" unfolding l3 by simp
  have n3: "\<not> (\<exists>day\<in>set days_of_week. contains (lower ?t3) (fst day))"
    unfolding l3 by (simp add: days_of_week_def)
  have p1: "(4::nat) < 7 \<and> contains (lower ?t1) (fst (days_of_week ! 4))
            \<and> (\<forall>j<4. \<not> contains (lower ?t1) (fst (days_of_week ! j)))"
  proof -
    have "(4::nat) < 7" by simp
    with c1 n1 show ?thesis by blast
  qed
  have d: "days_ahead (int 4) ?now = 2" by (simp add: date_defs)
  have o: "ordinal ?now = 738888" by (simp add: date_defs)
  have m5: "mk_datetime 2024 1 5 10 0 0
              = \<lparr>ordinal = 738890, hour = 10, minute = 0, second = 0, microsecond = 0\<rparr>"
    by (simp add: date_defs)
  have m3: "mk_datetime 2024 1 3 10 0 0
              = \<lparr>ordinal = 738888, hour = 10, minute = 0, second = 0, microsecond = 0\<rparr>"
    by (simp add: date_defs)
  have m4: "mk_datetime 2024 1 4 10 0 0
              = \<lparr>ordinal = 738889, hour = 10, minute = 0, second = 0, microsecond = 0\<rparr>"
    by (simp add: date_defs)
  from base_date_priority [OF v1 v2, of 4 ?t1] p1
  have "resolve_base_date ?now (lower ?t1)
              = Inr \<lparr>ordinal = ordinal ?now + days_ahead (int 4) ?now, hour = 10,
                     minute = 0, second = 0, microsecond = 0\<rparr>"
    by blast
  then have r1: "resolve_base_date ?now (lower ?t1) = Inr (mk_datetime 2024 1 5 10 0 0)"
    unfolding d o m5 by simp
  from base_date_priority [OF v1 v2, of _ ?t2] c2 n2
  have "resolve_base_date ?now (lower ?t2)
              = Inr \<lparr>ordinal = ordinal ?now, hour = 10, minute = 0, second = 0,
                     microsecond = 0\<rparr>"
    by blast
  then have r2: "resolve_base_date ?now (lower ?t2) = Inr (mk_datetime 2024 1 3 10 0 0)"
    unfolding o m3 by simp
  from base_date_priority [OF v1 v2, of _ ?t3] c3 n3
  have "resolve_base_date ?now (lower ?t3)
              = Inr \<lparr>ordinal = ordinal ?now + 1, hour = 10, minute = 0, second = 0,
                     microsecond = 0\<rparr>"
    by blast
  then have r3: "resolve_base_date ?now (lower ?t3) = Inr (mk_datetime 2024 1 4 10 0 0)"
    unfolding o m4 by simp
  show ?thesis
    using v1 v2 c0 c1 r1 c2 r2 c3 r3 by blast
qed

section \<open>A day name equal to today's weekday\<close>

text \<open>
  C8, as the spec states it, fails: when the text also contains a day name that comes
  earlier in the table, that earlier day decides. On Wednesday 2024-01-03 the text
  "Monday or Wednesday", which contains neither "today" nor "tomorrow", resolves to
  Monday 2024-01-08, five days ahead and not seven.
\<close>

theorem earlier_weekday_counterexample:
  "weekday (mk_datetime 2024 1 3 15 0 0) = 2
   \<and> contains (lower ''Monday or Wednesday'') ''wednesday''
   \<and> \<not> contains (lower ''Monday or Wednesday'') ''today''
   \<and> \<not> contains (lower ''Monday or Wednesday'') ''tomorrow''
   \<and> resolve_base_date (mk_datetime 2024 1 3 15 0 0) (lower ''Monday or Wednesday'')
       = Inr \<lparr>ordinal = ordinal (mk_datetime 2024 1 3 15 0 0) + 5, hour = 10, minute = 0,
              second = 0, microsecond = 0\<rparr>
   \<and> parse_date_time (mk_datetime 2024 1 3 15 0 0) ''Monday or Wednesday''
       = Inr ''2024-01-08T10:00:00''"
proof -
  let ?now = "mk_datetime 2024 1 3 15 0 0"
  have l: "lower ''Monday or Wednesday'' = ''monday or wednesday''" by code_simp
  have w: "weekday ?now = 2" by (simp add: date_defs)
  have rb: "resolve_base_date ?now ''monday or wednesday''
              = Inr \<lparr>ordinal = 738893, hour = 10, minute = 0, second = 0, microsecond = 0\<rparr>"
    by (simp add: resolve_base_date_def date_defs days_of_week_def)
  have o: "ordinal ?now + 5 = 738893" by (simp add: date_defs)
  have fc: "find_clock time_patterns ''monday or wednesday'' = None"
    by code_simp
  have tp: "apply_time_patterns time_patterns ''monday or wednesday'' b = Inr b" for b
    by (simp add: apply_time_patterns_find_clock fc)
  have td: "apply_time_descriptions ''monday or wednesday'' b = Inr b" for b
    by (simp add: apply_time_descriptions_def)
  have iso: "isoformat \<lparr>ordinal = 738893, hour = 10, minute = 0, second = 0, microsecond = 0\<rparr>
               = ''2024-01-08T10:00:00''"
    by code_simp
  have p: "parse_date_time ?now ''Monday or Wednesday'' = Inr ''2024-01-08T10:00:00''"
    by (simp add: l rb parse_date_time_def parse_date_time_value_def tp td iso then_do_def)
  show ?thesis
    unfolding l o using w rb p by simp
qed

text \<open>
  C8, amended. If the text contains the name of the reference time's weekday and no day
  name that precedes it in the order monday, ..., sunday, the base date is the
  reference date plus seven days, whether or not "today" or "tomorrow" is present. And
  whenever the text contains any day name, the base date is between one and seven days
  after the reference date, never the reference date itself.
\<close>

theorem same_weekday_rolls_forward:
  assumes "0 < ordinal now" and "ordinal now + 7 \<le> MAXORDINAL"
  shows "(i < 7 \<and> weekday now = int i
            \<and> contains (lower text) (fst (days_of_week ! i))
            \<and> (\<forall>j<i. \<not> contains (lower text) (fst (days_of_week ! j)))
          \<longrightarrow> resolve_base_date now (lower text)
                = Inr \<lparr>ordinal = ordinal now + 7, hour = 10, minute = 0, second = 0,
                       microsecond = 0\<rparr>)
       \<and> ((\<exists>day\<in>set days_of_week. contains (lower text) (fst day))
          \<longrightarrow> (\<exists>k. 1 \<le> k \<and> k \<le> 7
                \<and> resolve_base_date now (lower text)
                    = Inr \<lparr>ordinal = ordinal now + k, hour = 10, minute = 0, second = 0,
                           microsecond = 0\<rparr>))"
proof (intro conjI impI)
  assume c: "i < 7 \<and> weekday now = int i
            \<and> contains (lower text) (fst (days_of_week ! i))
            \<and> (\<forall>j<i. \<not> contains (lower text) (fst (days_of_week ! j)))"
  then have "find_day days_of_week (lower text) = Some (fst (days_of_week ! i), int i)"
    by (simp add: find_day_nth)
  from resolve_base_date_day [OF assms this]
  have "resolve_base_date now (lower text)
          = Inr \<lparr>ordinal = ordinal now + days_ahead (int i) now, hour = 10, minute = 0,
                 second = 0, microsecond = 0\<rparr>" .
  moreover from c have "days_ahead (int i) now = 7"
    using days_ahead_same_day [of now] by simp
  ultimately show "resolve_base_date now (lower text)
          = Inr \<lparr>ordinal = ordinal now + 7, hour = 10, minute = 0, second = 0,
                 microsecond = 0\<rparr>"
    by simp
next
  assume "\<exists>day\<in>set days_of_week. contains (lower text) (fst day)"
  then have d: "\<not> (contains (lower text) ''today''
                 \<and> \<not> (\<exists>day\<in>set days_of_week. contains (lower text) (fst day)))"
    by simp
  from resolve_base_date_shape [OF assms, of "lower text"]
  obtain k where k: "0 \<le> k \<and> k \<le> 7"
    and k0: "k = 0 \<longleftrightarrow> contains (lower text) ''today''
                    \<and> \<not> (\<exists>day\<in>set days_of_week. contains (lower text) (fst day))"
    and rb: "resolve_base_date now (lower text)
               = Inr \<lparr>ordinal = ordinal now + k, hour = 10, minute = 0, second = 0,
                      microsecond = 0\<rparr>"
    by blast
  from k k0 d have "1 \<le> k \<and> k \<le> 7" by arith
  with rb show "\<exists>k. 1 \<le> k \<and> k \<le> 7
                \<and> resolve_base_date now (lower text)
                    = Inr \<lparr>ordinal = ordinal now + k, hour = 10, minute = 0, second = 0,
                           microsecond = 0\<rparr>"
    by blast
qed

theorem same_weekday_rolls_forward_witness:
  "0 < ordinal (mk_datetime 2024 1 3 15 0 0)
   \<and> ordinal (mk_datetime 2024 1 3 15 0 0) + 7 \<le> MAXORDINAL
   \<and> weekday (mk_datetime 2024 1 3 15 0 0) = int 2
   \<and> contains (lower ''Today or next Wednesday'') (fst (days_of_week ! 2))
   \<and> resolve_base_date (mk_datetime 2024 1 3 15 0 0) (lower ''Today or next Wednesday'')
       = Inr (mk_datetime 2024 1 10 10 0 0)
   \<and> (\<exists>day\<in>set days_of_week. contains (lower ''Today or next Wednesday'') (fst day))
   \<and> (\<exists>k. 1 \<le> k \<and> k \<le> 7
         \<and> resolve_base_date (mk_datetime 2024 1 3 15 0 0) (lower ''Today or next Wednesday'')
             = Inr \<lparr>ordinal = ordinal (mk_datetime 2024 1 3 15 0 0) + k, hour = 10,
                    minute = 0, second = 0, microsecond = 0\<rparr>)"
proof -
  let ?now = "mk_datetime 2024 1 3 15 0 0"
  let ?t = "''Today or next Wednesday''"
  have l: "lower ?t = ''today or next wednesday''" by code_simp
  have w: "weekday ?now = int 2" by (simp add: date_defs)
  have f: "fst (days_of_week ! 2) = ''wednesday''" by (simp add: days_of_week_def)
  have c: "contains (lower ?t) (fst (days_of_week ! 2))" unfolding l f by simp
  have n: "\<forall>j<2. \<not> contains (lower ?t) (fst (days_of_week ! j))"
  proof (intro allI impI)
    fix j :: nat
    assume "j < 2"
    then have "j = 0 \<or> j = 1" by arith
    then show "\<not> contains (lower ?t) (fst (days_of_week ! j))"
      unfolding l by (auto simp: days_of_week_def)
  qed
  have p: "(2::nat) < 7 \<and> weekday ?now = int 2
            \<and> contains (lower ?t) (fst (days_of_week ! 2))
            \<and> (\<forall>j<2. \<not> contains (lower ?t) (fst (days_of_week ! j)))"
  proof -
    have "(2::nat) < 7" by simp
    with w c n show ?thesis by blast
  qed
  have "days_of_week ! 2 \<in> set days_of_week" by (simp add: days_of_week_def)
  with c have e: "\<exists>day\<in>set days_of_week. contains (lower ?t) (fst day)" by blast
  have m: "mk_datetime 2024 1 10 10 0 0
             = \<lparr>ordinal = ordinal ?now + 7, hour = 10, minute = 0, second = 0,
                microsecond = 0\<rparr>"
    by (simp add: date_defs)
  note inst = same_weekday_rolls_forward [OF now_valid, of 2 ?t]
  from inst p have r: "resolve_base_date ?now (lower ?t) = Inr (mk_datetime 2024 1 10 10 0 0)"
    unfolding m by blast
  from inst e have k: "\<exists>k. 1 \<le> k \<and> k \<le> 7
         \<and> resolve_base_date ?now (lower ?t)
             = Inr \<lparr>ordinal = ordinal ?now + k, hour = 10, minute = 0, second = 0,
                    microsecond = 0\<rparr>"
    by blast
  show ?thesis
    using now_valid w c r e k by blast
qed

section \<open>The appointment date and the reference time\<close>

text \<open>
  C7, as the spec states it, fails: with "today" the date is the reference date and the
  time of day comes from the text or the 10:00 default, not from the reference time. At
  2024-01-03T15:00:00 the text "book a visit today" gives 2024-01-03T10:00:00, five
  hours before the reference time.
\<close>

theorem today_in_the_past_counterexample:
  "should_create ''book a visit today'' ''''
   \<and> parse_date_time_value (mk_datetime 2024 1 3 15 0 0) ''book a visit today''
       = Inr (mk_datetime 2024 1 3 10 0 0)
   \<and> parse_date_time (mk_datetime 2024 1 3 15 0 0) ''book a visit today''
       = Inr ''2024-01-03T10:00:00''
   \<and> dt_less (mk_datetime 2024 1 3 10 0 0) (mk_datetime 2024 1 3 15 0 0)"
proof -
  let ?now = "mk_datetime 2024 1 3 15 0 0"
  have l: "lower ''book a visit today'' = ''book a visit today''" by code_simp
  have sc: "should_create ''book a visit today'' ''''" by code_simp
  have rb: "resolve_base_date ?now ''book a visit today''
              = Inr \<lparr>ordinal = 738888, hour = 10, minute = 0, second = 0, microsecond = 0\<rparr>"
    by (simp add: resolve_base_date_def date_defs days_of_week_def)
  have m: "mk_datetime 2024 1 3 10 0 0
             = \<lparr>ordinal = 738888, hour = 10, minute = 0, second = 0, microsecond = 0\<rparr>"
    by (simp add: date_defs)
  have fc: "find_clock time_patterns ''book a visit today'' = None"
    by code_simp
  have tp: "apply_time_patterns time_patterns ''book a visit today'' b = Inr b" for b
    by (simp add: apply_time_patterns_find_clock fc)
  have td: "apply_time_descriptions ''book a visit today'' b = Inr b" for b
    by (simp add: apply_time_descriptions_def)
  have iso: "isoformat \<lparr>ordinal = 738888, hour = 10, minute = 0, second = 0, microsecond = 0\<rparr>
               = ''2024-01-03T10:00:00''"
    by code_simp
  have v: "parse_date_time_value ?now ''book a visit today'' = Inr (mk_datetime 2024 1 3 10 0 0)"
    by (simp add: l rb m parse_date_time_value_def tp td then_do_def)
  have p: "parse_date_time ?now ''book a visit today'' = Inr ''2024-01-03T10:00:00''"
    by (simp add: v m parse_date_time_def iso then_do_def)
  have d: "dt_less (mk_datetime 2024 1 3 10 0 0) ?now"
    by (simp add: dt_less_def date_defs)
  show ?thesis using sc v p d by simp
qed

text \<open>
  C7, amended. For a text whose clock time, if it has one, is in range, and a reference
  time up to seven days before the last representable day, the appointment date has
  the time of day that the text gives: the fixed time of the first time-of-day keyword
  present, else the explicit clock time, else 10:00, with seconds and microseconds
  zero. If the text does not contain "today", or contains a day name, its date is one
  to seven days after the reference date, so it is strictly after the reference time.
  If the text contains "today" and no day name, its date is the reference date, and it
  lies before the reference time exactly when its time of day is earlier than that of
  the reference time.
\<close>

theorem appointment_date_after_now:
  assumes "0 < ordinal now" and "ordinal now + 7 \<le> MAXORDINAL"
    and "clock_in_range (lower text)"
  shows "\<exists>d. parse_date_time_value now text = Inr d
           \<and> parse_date_time now text = Inr (isoformat d)
           \<and> map_option appointment_date (parse_appointment_details now text bot_response)
               = Some (isoformat d)
           \<and> hour d = (if contains (lower text) ''morning'' then 9
                       else if contains (lower text) ''afternoon'' then 14
                       else if contains (lower text) ''evening'' then 18
                       else case find_clock time_patterns (lower text) of
                              Some (Inr (h, mi)) \<Rightarrow> h | _ \<Rightarrow> 10)
           \<and> minute d = (if contains (lower text) ''morning''
                            \<or> contains (lower text) ''afternoon''
                            \<or> contains (lower text) ''evening'' then 0
                         else case find_clock time_patterns (lower text) of
                                Some (Inr (h, mi)) \<Rightarrow> mi | _ \<Rightarrow> 0)
           \<and> second d = 0 \<and> microsecond d = 0
           \<and> (\<not> contains (lower text) ''today''
                \<or> (\<exists>day\<in>set days_of_week. contains (lower text) (fst day))
              \<longrightarrow> ordinal now < ordinal d \<and> ordinal d \<le> ordinal now + 7 \<and> dt_less now d)
           \<and> (contains (lower text) ''today''
                \<and> \<not> (\<exists>day\<in>set days_of_week. contains (lower text) (fst day))
              \<longrightarrow> ordinal d = ordinal now
                  \<and> (dt_less d now
                       \<longleftrightarrow> hour d < hour now
                           \<or> (hour d = hour now
                               \<and> (minute d < minute now
                                   \<or> (minute d = minute now
                                       \<and> (0 < second now \<or> 0 < microsecond now))))))"
proof -
  from parse_date_time_value_exact [OF assms]
  obtain k where k: "0 \<le> k \<and> k \<le> 7"
    and k0: "k = 0 \<longleftrightarrow> contains (lower text) ''today''
                    \<and> \<not> (\<exists>day\<in>set days_of_week. contains (lower text) (fst day))"
    and p: "parse_date_time_value now text
               = Inr \<lparr>ordinal = ordinal now + k,
                      hour = (if contains (lower text) ''morning'' then 9
                              else if contains (lower text) ''afternoon'' then 14
                              else if contains (lower text) ''evening'' then 18
                              else case find_clock time_patterns (lower text) of
                                     Some (Inr (h, mi)) \<Rightarrow> h | _ \<Rightarrow> 10),
                      minute = (if contains (lower text) ''morning''
                                   \<or> contains (lower text) ''afternoon''
                                   \<or> contains (lower text) ''evening'' then 0
                                else case find_clock time_patterns (lower text) of
                                       Some (Inr (h, mi)) \<Rightarrow> mi | _ \<Rightarrow> 0),
                      second = 0, microsecond = 0\<rparr>"
    by (elim exE conjE) (rule that, simp_all)
  define d where "d = \<lparr>ordinal = ordinal now + k,
                      hour = (if contains (lower text) ''morning'' then 9
                              else if contains (lower text) ''afternoon'' then 14
                              else if contains (lower text) ''evening'' then 18
                              else case find_clock time_patterns (lower text) of
                                     Some (Inr (h, mi)) \<Rightarrow> h | _ \<Rightarrow> 10),
                      minute = (if contains (lower text) ''morning''
                                   \<or> contains (lower text) ''afternoon''
                                   \<or> contains (lower text) ''evening'' then 0
                                else case find_clock time_patterns (lower text) of
                                       Some (Inr (h, mi)) \<Rightarrow> mi | _ \<Rightarrow> 0),
                      second = 0, microsecond = 0\<rparr>"
  have pv: "parse_date_time_value now text = Inr d" using p by (simp only: d_def)
  have ps: "parse_date_time now text = Inr (isoformat d)"
    by (simp add: parse_date_time_def pv then_do_def)
  have pa: "map_option appointment_date (parse_appointment_details now text bot_response)
              = Some (isoformat d)"
    by (simp add: parse_appointment_details_def ps Let_def)
  have f: "ordinal d = ordinal now + k" "second d = 0" "microsecond d = 0"
    by (simp_all add: d_def)
  have later: "ordinal now < ordinal d \<and> ordinal d \<le> ordinal now + 7 \<and> dt_less now d"
    if "\<not> contains (lower text) ''today''
        \<or> (\<exists>day\<in>set days_of_week. contains (lower text) (fst day))"
  proof -
    from that k k0 have "1 \<le> k" by arith
    with k f show ?thesis by (simp add: dt_less_def)
  qed
  have same: "ordinal d = ordinal now
      \<and> (dt_less d now
           \<longleftrightarrow> hour d < hour now
               \<or> (hour d = hour now
                   \<and> (minute d < minute now
                       \<or> (minute d = minute now
                           \<and> (0 < second now \<or> 0 < microsecond now)))))"
    if "contains (lower text) ''today''
        \<and> \<not> (\<exists>day\<in>set days_of_week. contains (lower text) (fst day))"
  proof -
    from that k0 have "k = 0" by simp
    with f show ?thesis by (auto simp: dt_less_def)
  qed
  have hd: "hour d = (if contains (lower text) ''morning'' then 9
                       else if contains (lower text) ''afternoon'' then 14
                       else if contains (lower text) ''evening'' then 18
                       else case find_clock time_patterns (lower text) of
                              Some (Inr (h, mi)) \<Rightarrow> h | _ \<Rightarrow> 10)"
    by (simp only: d_def datetime.simps)
  have md: "minute d = (if contains (lower text) ''morning''
                            \<or> contains (lower text) ''afternoon''
                            \<or> contains (lower text) ''evening'' then 0
                         else case find_clock time_patterns (lower text) of
                                Some (Inr (h, mi)) \<Rightarrow> mi | _ \<Rightarrow> 0)"
    by (simp only: d_def datetime.simps)
  show ?thesis
    using pv ps pa hd md f(2,3) later same
    by - (rule exI [of _ d], blast)
qed

theorem appointment_date_after_now_witness:
  "0 < ordinal (mk_datetime 2024 1 3 15 0 0)
   \<and> ordinal (mk_datetime 2024 1 3 15 0 0) + 7 \<le> MAXORDINAL
   \<and> clock_in_range (lower ''See you tomorrow at 9am'')
   \<and> \<not> contains (lower ''See you tomorrow at 9am'') ''today''
   \<and> (\<exists>d. parse_date_time_value (mk_datetime 2024 1 3 15 0 0) ''See you tomorrow at 9am''
              = Inr d
          \<and> hour d = 9 \<and> minute d = 0 \<and> second d = 0 \<and> microsecond d = 0
          \<and> ordinal (mk_datetime 2024 1 3 15 0 0) < ordinal d
          \<and> dt_less (mk_datetime 2024 1 3 15 0 0) d)
   \<and> clock_in_range (lower ''Today at 4pm'')
   \<and> contains (lower ''Today at 4pm'') ''today''
   \<and> \<not> (\<exists>day\<in>set days_of_week. contains (lower ''Today at 4pm'') (fst day))
   \<and> parse_date_time_value (mk_datetime 2024 1 3 15 0 0) ''Today at 4pm''
       = Inr (mk_datetime 2024 1 3 16 0 0)
   \<and> map_option appointment_date
         (parse_appointment_details (mk_datetime 2024 1 3 15 0 0) ''Today at 4pm'' ''ok'')
       = Some ''2024-01-03T16:00:00''
   \<and> \<not> dt_less (mk_datetime 2024 1 3 16 0 0) (mk_datetime 2024 1 3 15 0 0)
   \<and> clock_in_range (lower ''Later today'')
   \<and> contains (lower ''Later today'') ''today''
   \<and> \<not> (\<exists>day\<in>set days_of_week. contains (lower ''Later today'') (fst day))
   \<and> parse_date_time_value (mk_datetime 2024 1 3 15 0 0) ''Later today''
       = Inr (mk_datetime 2024 1 3 10 0 0)
   \<and> dt_less (mk_datetime 2024 1 3 10 0 0) (mk_datetime 2024 1 3 15 0 0)"
proof -
  let ?now = "mk_datetime 2024 1 3 15 0 0"
  let ?t1 = "''See you tomorrow at 9am''"
  let ?t2 = "''Today at 4pm''"
  let ?t3 = "''Later today''"
  have l1: "lower ?t1 = ''see you tomorrow at 9am''" by code_simp
  have l2: "lower ?t2 = ''today at 4pm''" by code_simp
  have l3: "lower ?t3 = ''later today''" by code_simp
  have r1: "clock_in_range (lower ?t1)" unfolding l1 by code_simp
  have r2: "clock_in_range (lower ?t2)" unfolding l2 by code_simp
  have r3: "clock_in_range (lower ?t3)" unfolding l3 by code_simp
  have f1: "find_clock time_patterns (lower ?t1) = Some (Inr (9, 0))" unfolding l1 by code_simp
  have f2: "find_clock time_patterns (lower ?t2) = Some (Inr (16, 0))" unfolding l2 by code_simp
  have f3: "find_clock time_patterns (lower ?t3) = None" unfolding l3 by code_simp
  have k1: "\<not> contains (lower ?t1) ''morning''" "\<not> contains (lower ?t1) ''afternoon''"
    "\<not> contains (lower ?t1) ''evening''"
    unfolding l1 by simp_all
  have k2: "\<not> contains (lower ?t2) ''morning''" "\<not> contains (lower ?t2) ''afternoon''"
    "\<not> contains (lower ?t2) ''evening''"
    unfolding l2 by simp_all
  have k3: "\<not> contains (lower ?t3) ''morning''" "\<not> contains (lower ?t3) ''afternoon''"
    "\<not> contains (lower ?t3) ''evening''"
    unfolding l3 by simp_all
  have c1: "\<not> contains (lower ?t1) ''today''" unfolding l1 by simp
  have c2: "contains (lower ?t2) ''today''" unfolding l2 by simp
  have c3: "contains (lower ?t3) ''today''" unfolding l3 by simp
  have n2: "\<not> (\<exists>day\<in>set days_of_week. contains (lower ?t2) (fst day))"
    unfolding l2 by (simp add: days_of_week_def)
  have n3: "\<not> (\<exists>day\<in>set days_of_week. contains (lower ?t3) (fst day))"
    unfolding l3 by (simp add: days_of_week_def)
  have o: "ordinal ?now = 738888" by (simp add: date_defs)
  have m16: "mk_datetime 2024 1 3 16 0 0
               = \<lparr>ordinal = 738888, hour = 16, minute = 0, second = 0, microsecond = 0\<rparr>"
    by (simp add: date_defs)
  have m10: "mk_datetime 2024 1 3 10 0 0
               = \<lparr>ordinal = 738888, hour = 10, minute = 0, second = 0, microsecond = 0\<rparr>"
    by (simp add: date_defs)
  from appointment_date_after_now [OF now_valid r1, where bot_response = "''ok''"]
  obtain d1 where p1: "parse_date_time_value ?now ?t1 = Inr d1"
    and h1: "hour d1 = (if contains (lower ?t1) ''morning'' then 9
                       else if contains (lower ?t1) ''afternoon'' then 14
                       else if contains (lower ?t1) ''evening'' then 18
                       else case find_clock time_patterns (lower ?t1) of
                              Some (Inr (h, mi)) \<Rightarrow> h | _ \<Rightarrow> 10)"
    and m1: "minute d1 = (if contains (lower ?t1) ''morning''
                            \<or> contains (lower ?t1) ''afternoon''
                            \<or> contains (lower ?t1) ''evening'' then 0
                         else case find_clock time_patterns (lower ?t1) of
                                Some (Inr (h, mi)) \<Rightarrow> mi | _ \<Rightarrow> 0)"
    and s1: "second d1 = 0" "microsecond d1 = 0"
    and a1: "\<not> contains (lower ?t1) ''today''
                \<or> (\<exists>day\<in>set days_of_week. contains (lower ?t1) (fst day))
              \<longrightarrow> ordinal ?now < ordinal d1 \<and> ordinal d1 \<le> ordinal ?now + 7
                  \<and> dt_less ?now d1"
    by (elim exE conjE) (rule that, assumption+)
  have e1: "\<exists>d. parse_date_time_value ?now ?t1 = Inr d
          \<and> hour d = 9 \<and> minute d = 0 \<and> second d = 0 \<and> microsecond d = 0
          \<and> ordinal ?now < ordinal d \<and> dt_less ?now d"
    using p1 h1 m1 s1 a1 c1 by (intro exI [of _ d1]) (simp add: k1 f1)
  from appointment_date_after_now [OF now_valid r2, where bot_response = "''ok''"]
  obtain d2 where p2: "parse_date_time_value ?now ?t2 = Inr d2"
    and q2: "map_option appointment_date (parse_appointment_details ?now ?t2 ''ok'')
               = Some (isoformat d2)"
    and h2: "hour d2 = (if contains (lower ?t2) ''morning'' then 9
                       else if contains (lower ?t2) ''afternoon'' then 14
                       else if contains (lower ?t2) ''evening'' then 18
                       else case find_clock time_patterns (lower ?t2) of
                              Some (Inr (h, mi)) \<Rightarrow> h | _ \<Rightarrow> 10)"
    and m2: "minute d2 = (if contains (lower ?t2) ''morning''
                            \<or> contains (lower ?t2) ''afternoon''
                            \<or> contains (lower ?t2) ''evening'' then 0
                         else case find_clock time_patterns (lower ?t2) of
                                Some (Inr (h, mi)) \<Rightarrow> mi | _ \<Rightarrow> 0)"
    and s2: "second d2 = 0" "microsecond d2 = 0"
    and a2: "contains (lower ?t2) ''today''
                \<and> \<not> (\<exists>day\<in>set days_of_week. contains (lower ?t2) (fst day))
              \<longrightarrow> ordinal d2 = ordinal ?now
                  \<and> (dt_less d2 ?now
                       \<longleftrightarrow> hour d2 < hour ?now
                           \<or> (hour d2 = hour ?now
                               \<and> (minute d2 < minute ?now
                                   \<or> (minute d2 = minute ?now
                                       \<and> (0 < second ?now \<or> 0 < microsecond ?now)))))"
    by (elim exE conjE) (rule that, assumption+)
  from a2 c2 n2 have o2: "ordinal d2 = ordinal ?now" by blast
  have "d2 = mk_datetime 2024 1 3 16 0 0"
    using h2 m2 s2 o2 unfolding m16 o by (cases d2) (simp add: k2 f2)
  with p2 q2 have e2: "parse_date_time_value ?now ?t2 = Inr (mk_datetime 2024 1 3 16 0 0)"
    and "map_option appointment_date (parse_appointment_details ?now ?t2 ''ok'')
           = Some (isoformat (mk_datetime 2024 1 3 16 0 0))"
    by simp_all
  moreover have "isoformat (mk_datetime 2024 1 3 16 0 0) = ''2024-01-03T16:00:00''"
    by code_simp
  ultimately have i2: "map_option appointment_date
         (parse_appointment_details ?now ?t2 ''ok'') = Some ''2024-01-03T16:00:00''"
    by simp
  have g2: "\<not> dt_less (mk_datetime 2024 1 3 16 0 0) ?now"
    by (simp add: dt_less_def date_defs)
  from appointment_date_after_now [OF now_valid r3, where bot_response = "''ok''"]
  obtain d3 where p3: "parse_date_time_value ?now ?t3 = Inr d3"
    and h3: "hour d3 = (if contains (lower ?t3) ''morning'' then 9
                       else if contains (lower ?t3) ''afternoon'' then 14
                       else if contains (lower ?t3) ''evening'' then 18
                       else case find_clock time_patterns (lower ?t3) of
                              Some (Inr (h, mi)) \<Rightarrow> h | _ \<Rightarrow> 10)"
    and m3: "minute d3 = (if contains (lower ?t3) ''morning''
                            \<or> contains (lower ?t3) ''afternoon''
                            \<or> contains (lower ?t3) ''evening'' then 0
                         else case find_clock time_patterns (lower ?t3) of
                                Some (Inr (h, mi)) \<Rightarrow> mi | _ \<Rightarrow> 0)"
    and s3: "second d3 = 0" "microsecond d3 = 0"
    and a3: "contains (lower ?t3) ''today''
                \<and> \<not> (\<exists>day\<in>set days_of_week. contains (lower ?t3) (fst day))
              \<longrightarrow> ordinal d3 = ordinal ?now
                  \<and> (dt_less d3 ?now
                       \<longleftrightarrow> hour d3 < hour ?now
                           \<or> (hour d3 = hour ?now
                               \<and> (minute d3 < minute ?now
                                   \<or> (minute d3 = minute ?now
                                       \<and> (0 < second ?now \<or> 0 < microsecond ?now)))))"
    by (elim exE conjE) (rule that, assumption+)
  from a3 c3 n3 have o3: "ordinal d3 = ordinal ?now" by blast
  have "d3 = mk_datetime 2024 1 3 10 0 0"
    using h3 m3 s3 o3 unfolding m10 o by (cases d3) (simp add: k3 f3)
  with p3 have e3: "parse_date_time_value ?now ?t3 = Inr (mk_datetime 2024 1 3 10 0 0)"
    by simp
  have g3: "dt_less (mk_datetime 2024 1 3 10 0 0) ?now"
    by (simp add: dt_less_def date_defs)
  show ?thesis
    using now_valid r1 c1 e1 r2 c2 n2 e2 i2 g2 r3 c3 n3 e3 g3 by blast
qed

section \<open>Time-of-day keywords\<close>

text \<open>
  C2, as the spec states it, fails: the three keywords are tested in the order
  "morning", "afternoon", "evening" and the first one present decides. The text "this
  evening or tomorrow morning" contains "evening" and yields 09:00, not 18:00.
\<close>

theorem evening_and_morning_counterexample:
  "contains (lower ''this evening or tomorrow morning'') ''evening''
   \<and> parse_date_time (mk_datetime 2024 1 3 15 0 0) ''this evening or tomorrow morning''
       = Inr ''2024-01-04T09:00:00''"
proof -
  let ?now = "mk_datetime 2024 1 3 15 0 0"
  let ?t = "''this evening or tomorrow morning''"
  have l: "lower ?t = ?t" by code_simp
  have c: "contains ?t ''evening''" by simp
  have rb: "resolve_base_date ?now ?t
              = Inr \<lparr>ordinal = 738889, hour = 10, minute = 0, second = 0, microsecond = 0\<rparr>"
    by (simp add: resolve_base_date_def date_defs days_of_week_def)
  have fc: "find_clock time_patterns ?t = None"
    by code_simp
  have tp: "apply_time_patterns time_patterns ?t b = Inr b" for b
    by (simp add: apply_time_patterns_find_clock fc)
  have td: "apply_time_descriptions ?t
              \<lparr>ordinal = 738889, hour = 10, minute = 0, second = 0, microsecond = 0\<rparr>
            = Inr \<lparr>ordinal = 738889, hour = 9, minute = 0, second = 0, microsecond = 0\<rparr>"
    by (simp add: apply_time_descriptions_def replace_hour_minute_def replace_time_def)
  have iso: "isoformat \<lparr>ordinal = 738889, hour = 9, minute = 0, second = 0, microsecond = 0\<rparr>
               = ''2024-01-04T09:00:00''"
    by code_simp
  have p: "parse_date_time ?now ?t = Inr ''2024-01-04T09:00:00''"
    by (simp add: l rb parse_date_time_def parse_date_time_value_def tp td iso then_do_def)
  show ?thesis
    unfolding l using c p by simp
qed

text \<open>
  C2, amended. For a text whose clock time, if it has one, is in range, the time of
  day is the fixed time of the first keyword present in the order "morning" (09:00),
  "afternoon" (14:00), "evening" (18:00), on the resolved base date, whatever the
  explicit clock time in the text is; so "Monday at 3pm in the morning" yields 09:00
  on the resolved Monday. (A clock time out of range is the subject of C1.)
\<close>

theorem time_keyword_overrides_clock:
  assumes "0 < ordinal now" and "ordinal now + 7 \<le> MAXORDINAL"
    and "clock_in_range (lower text)"
  shows "\<exists>base. resolve_base_date now (lower text) = Inr base
           \<and> (contains (lower text) ''morning''
              \<longrightarrow> parse_date_time_value now text = Inr (base\<lparr>hour := 9, minute := 0\<rparr>)
                  \<and> parse_date_time now text = Inr (isoformat (base\<lparr>hour := 9, minute := 0\<rparr>)))
           \<and> (\<not> contains (lower text) ''morning'' \<and> contains (lower text) ''afternoon''
              \<longrightarrow> parse_date_time_value now text = Inr (base\<lparr>hour := 14, minute := 0\<rparr>)
                  \<and> parse_date_time now text
                      = Inr (isoformat (base\<lparr>hour := 14, minute := 0\<rparr>)))
           \<and> (\<not> contains (lower text) ''morning'' \<and> \<not> contains (lower text) ''afternoon''
                \<and> contains (lower text) ''evening''
              \<longrightarrow> parse_date_time_value now text = Inr (base\<lparr>hour := 18, minute := 0\<rparr>)
                  \<and> parse_date_time now text
                      = Inr (isoformat (base\<lparr>hour := 18, minute := 0\<rparr>)))"
proof -
  from parse_date_time_value_shape [OF assms]
  obtain k h mi where rb: "resolve_base_date now (lower text)
               = Inr \<lparr>ordinal = ordinal now + k, hour = 10, minute = 0, second = 0,
                      microsecond = 0\<rparr>"
    and p: "parse_date_time_value now text
               = Inr \<lparr>ordinal = ordinal now + k,
                      hour = (if contains (lower text) ''morning'' then 9
                              else if contains (lower text) ''afternoon'' then 14
                              else if contains (lower text) ''evening'' then 18 else h),
                      minute = (if contains (lower text) ''morning''
                                   \<or> contains (lower text) ''afternoon''
                                   \<or> contains (lower text) ''evening'' then 0 else mi),
                      second = 0, microsecond = 0\<rparr>"
    by (elim exE conjE) (rule that, simp_all)
  show ?thesis
    by (rule exI [of _ "\<lparr>ordinal = ordinal now + k, hour = 10, minute = 0, second = 0,
                         microsecond = 0\<rparr>"])
       (simp add: rb p parse_date_time_def then_do_def)
qed

theorem time_keyword_overrides_clock_witness:
  "0 < ordinal (mk_datetime 2024 1 3 15 0 0)
   \<and> ordinal (mk_datetime 2024 1 3 15 0 0) + 7 \<le> MAXORDINAL
   \<and> clock_in_range (lower ''Monday at 3pm in the morning'')
   \<and> find_clock time_patterns (lower ''Monday at 3pm in the morning'') = Some (Inr (15, 0))
   \<and> contains (lower ''Monday at 3pm in the morning'') ''morning''
   \<and> parse_date_time (mk_datetime 2024 1 3 15 0 0) ''Monday at 3pm in the morning''
       = Inr ''2024-01-08T09:00:00''
   \<and> clock_in_range (lower ''Tomorrow afternoon at 11:15'')
   \<and> \<not> contains (lower ''Tomorrow afternoon at 11:15'') ''morning''
   \<and> contains (lower ''Tomorrow afternoon at 11:15'') ''afternoon''
   \<and> parse_date_time (mk_datetime 2024 1 3 15 0 0) ''Tomorrow afternoon at 11:15''
       = Inr ''2024-01-04T14:00:00''
   \<and> clock_in_range (lower ''Friday evening'')
   \<and> \<not> contains (lower ''Friday evening'') ''morning''
   \<and> \<not> contains (lower ''Friday evening'') ''afternoon''
   \<and> contains (lower ''Friday evening'') ''evening''
   \<and> parse_date_time (mk_datetime 2024 1 3 15 0 0) ''Friday evening''
       = Inr ''2024-01-05T18:00:00''"
proof -
  let ?now = "mk_datetime 2024 1 3 15 0 0"
  let ?t1 = "''Monday at 3pm in the morning''"
  let ?t2 = "''Tomorrow afternoon at 11:15''"
  let ?t3 = "''Friday evening''"
  have l1: "lower ?t1 = ''monday at 3pm in the morning''" by code_simp
  have l2: "lower ?t2 = ''tomorrow afternoon at 11:15''" by code_simp
  have l3: "lower ?t3 = ''friday evening''" by code_simp
  have r1: "clock_in_range (lower ?t1)" unfolding l1 by code_simp
  have r2: "clock_in_range (lower ?t2)" unfolding l2 by code_simp
  have r3: "clock_in_range (lower ?t3)" unfolding l3 by code_simp
  have f1: "find_clock time_patterns (lower ?t1) = Some (Inr (15, 0))"
    unfolding l1 by code_simp
  have c1: "contains (lower ?t1) ''morning''" unfolding l1 by simp
  have c2: "\<not> contains (lower ?t2) ''morning''" "contains (lower ?t2) ''afternoon''"
    unfolding l2 by simp_all
  have c3: "\<not> contains (lower ?t3) ''morning''" "\<not> contains (lower ?t3) ''afternoon''"
    "contains (lower ?t3) ''evening''"
    unfolding l3 by simp_all
  have b1: "resolve_base_date ?now (lower ?t1)
              = Inr \<lparr>ordinal = 738893, hour = 10, minute = 0, second = 0, microsecond = 0\<rparr>"
    unfolding l1 by (simp add: resolve_base_date_def date_defs days_of_week_def)
  have b2: "resolve_base_date ?now (lower ?t2)
              = Inr \<lparr>ordinal = 738889, hour = 10, minute = 0, second = 0, microsecond = 0\<rparr>"
    unfolding l2 by (simp add: resolve_base_date_def date_defs days_of_week_def)
  have b3: "resolve_base_date ?now (lower ?t3)
              = Inr \<lparr>ordinal = 738890, hour = 10, minute = 0, second = 0, microsecond = 0\<rparr>"
    unfolding l3 by (simp add: resolve_base_date_def date_defs days_of_week_def)
  have i1: "isoformat \<lparr>ordinal = 738893, hour = 9, minute = 0, second = 0, microsecond = 0\<rparr>
              = ''2024-01-08T09:00:00''"
    by code_simp
  have i2: "isoformat \<lparr>ordinal = 738889, hour = 14, minute = 0, second = 0, microsecond = 0\<rparr>
              = ''2024-01-04T14:00:00''"
    by code_simp
  have i3: "isoformat \<lparr>ordinal = 738890, hour = 18, minute = 0, second = 0, microsecond = 0\<rparr>
              = ''2024-01-05T18:00:00''"
    by code_simp
  from time_keyword_overrides_clock [OF now_valid r1] c1
  obtain base1 where "resolve_base_date ?now (lower ?t1) = Inr base1"
    and "parse_date_time ?now ?t1 = Inr (isoformat (base1\<lparr>hour := 9, minute := 0\<rparr>))"
    by blast
  with b1 i1 have p1: "parse_date_time ?now ?t1 = Inr ''2024-01-08T09:00:00''"
    by simp
  from time_keyword_overrides_clock [OF now_valid r2] c2
  obtain base2 where "resolve_base_date ?now (lower ?t2) = Inr base2"
    and "parse_date_time ?now ?t2 = Inr (isoformat (base2\<lparr>hour := 14, minute := 0\<rparr>))"
    by blast
  with b2 i2 have p2: "parse_date_time ?now ?t2 = Inr ''2024-01-04T14:00:00''"
    by simp
  from time_keyword_overrides_clock [OF now_valid r3] c3
  obtain base3 where "resolve_base_date ?now (lower ?t3) = Inr base3"
    and "parse_date_time ?now ?t3 = Inr (isoformat (base3\<lparr>hour := 18, minute := 0\<rparr>))"
    by blast
  with b3 i3 have p3: "parse_date_time ?now ?t3 = Inr ''2024-01-05T18:00:00''"
    by simp
  show ?thesis
    using now_valid r1 f1 c1 p1 r2 c2 p2 r3 c3 p3 by blast
qed

section \<open>Persistence inside the pipeline\<close>

text \<open>
  C6, as the spec states it, fails: \<open>_extract_appointment_data\<close> calls
  \<open>_create_appointment\<close> itself. For the user text "I want to book a checkup", the
  reply "ok" and an empty table in a database that commits the insert, the call returns
  the medical appointment with id 1 and leaves the table with that appointment in it.
\<close>

theorem checkup_is_inserted_counterexample:
  "should_create ''I want to book a checkup'' ''ok''
   \<and> extract_appointment_data (mk_datetime 2024 1 1 0 0 0) ''I want to book a checkup'' ''ok'' 7
        \<lparr>db_available = True, db_rows = [], db_next_id = 1,
         db_outcome = (\<lambda>row. Committed)\<rparr>
      = (Some \<lparr>title = ''Medical Appointment'', description = ''I want to book a checkup'',
               appointment_type = ''medical'', duration_minutes = 60, location = None,
               appt_notes = None, appointment_date = ''2024-01-02T10:00:00'',
               appointment_id = Some 1\<rparr>,
         \<lparr>db_available = True,
          db_rows = [\<lparr>row_id = 1, row_user_id = 7, row_title = ''Medical Appointment'',
                      row_description = ''I want to book a checkup'',
                      row_appointment_date = ''2024-01-02T10:00:00'',
                      row_duration_minutes = 60, row_appointment_type = ''medical'',
                      row_location = None, row_notes = None, row_status = ''pending''\<rparr>],
          db_next_id = 2,
          db_outcome = (\<lambda>row. Committed)\<rparr>)"
proof -
  let ?now = "mk_datetime 2024 1 1 0 0 0"
  let ?msg = "''I want to book a checkup''"
  let ?low = "''i want to book a checkup''"
  have lw: "lower ?msg = ?low" by code_simp
  have gate: "wants_to_schedule ?msg" by code_simp
  have det: "has_details ?msg" by code_simp
  have rb: "resolve_base_date ?now ?low
              = Inr \<lparr>ordinal = 738887, hour = 10, minute = 0, second = 0, microsecond = 0\<rparr>"
    by (simp add: resolve_base_date_def date_defs days_of_week_def)
  have fc: "find_clock time_patterns ?low = None" by code_simp
  have tp: "apply_time_patterns time_patterns ?low b = Inr b" for b
    by (simp add: apply_time_patterns_find_clock fc)
  have td: "apply_time_descriptions ?low b = Inr b" for b
    by (simp add: apply_time_descriptions_def)
  have iso: "isoformat \<lparr>ordinal = 738887, hour = 10, minute = 0, second = 0, microsecond = 0\<rparr>
              = ''2024-01-02T10:00:00''"
    by code_simp
  have pdt: "parse_date_time ?now ?msg = Inr ''2024-01-02T10:00:00''"
    by (simp add: parse_date_time_def parse_date_time_value_def lw rb tp td iso then_do_def)
  have ty: "any_keyword_in [''medical'', ''doctor'', ''checkup'', ''health''] ?msg"
    by code_simp
  have du: "\<not> contains ?low ''30 minutes''" "\<not> contains ?low ''half hour''"
    "\<not> contains ?low ''45 minutes''" "\<not> contains ?low ''90 minutes''"
    "\<not> contains ?low ''1.5 hours''" "\<not> contains ?low ''2 hours''"
    "\<not> contains ?low ''120 minutes''"
    by simp_all
  have pad: "parse_appointment_details ?now ?msg ''ok''
      = Some \<lparr>title = ''Medical Appointment'', description = ?msg,
               appointment_type = ''medical'', duration_minutes = 60, location = None,
               appt_notes = None, appointment_date = ''2024-01-02T10:00:00'',
               appointment_id = None\<rparr>"
    by (simp add: parse_appointment_details_def pdt ty lw du)
  have sc: "should_create ?msg ''ok''"
    by (simp add: should_create_def gate det)
  show ?thesis
    by (simp add: sc pad extract_appointment_data_def gate det create_appointment_def
          has_nul_parameter_def has_nul_def inserted_row_def)
qed

text \<open>
  C6, amended. \<open>_extract_appointment_data\<close> returns \<open>None\<close> and leaves the database
  as it was when the decision to create is false, when the details do not parse, when
  the database cannot be reached, and when a text among the details contains a NUL
  character. When the decision is true, the details parse, none of their texts
  contains a NUL character and the database is reached, then: if the insert, the fetch
  of the id or the commit raises, the function returns \<open>None\<close> and the table has the
  rows it had; if the insert is committed, the function itself has added the
  appointment to the table, with status "pending" and the next id, and, that id being
  other than 0, it returns the details together with the id. Persisting is done by the
  pipeline, not by its caller.
\<close>

theorem pipeline_inserts_appointment:
  "(\<not> should_create user_message bot_response
      \<longrightarrow> extract_appointment_data now user_message bot_response user_id db = (None, db))
   \<and> (should_create user_message bot_response
        \<and> parse_appointment_details now user_message bot_response = None
      \<longrightarrow> extract_appointment_data now user_message bot_response user_id db = (None, db))
   \<and> (should_create user_message bot_response
        \<and> parse_appointment_details now user_message bot_response = Some a
        \<and> (\<not> db_available db \<or> has_nul_parameter a)
      \<longrightarrow> extract_appointment_data now user_message bot_response user_id db = (None, db))
   \<and> (should_create user_message bot_response
        \<and> parse_appointment_details now user_message bot_response = Some a
        \<and> db_available db \<and> \<not> has_nul_parameter a
        \<and> db_outcome db (inserted_row user_id a (db_next_id db)) \<noteq> Committed
      \<longrightarrow> fst (extract_appointment_data now user_message bot_response user_id db) = None
          \<and> db_rows (snd (extract_appointment_data now user_message bot_response user_id db))
              = db_rows db)
   \<and> (should_create user_message bot_response
        \<and> parse_appointment_details now user_message bot_response = Some a
        \<and> db_available db \<and> \<not> has_nul_parameter a
        \<and> db_outcome db (inserted_row user_id a (db_next_id db)) = Committed
      \<longrightarrow> snd (extract_appointment_data now user_message bot_response user_id db)
            = db\<lparr>db_rows := db_rows db @ [inserted_row user_id a (db_next_id db)],
                 db_next_id := db_next_id db + 1\<rparr>
          \<and> inserted_row user_id a (db_next_id db)
              = \<lparr>row_id = db_next_id db, row_user_id = user_id, row_title = title a,
                 row_description = description a,
                 row_appointment_date = appointment_date a,
                 row_duration_minutes = duration_minutes a,
                 row_appointment_type = appointment_type a,
                 row_location = location a, row_notes = appt_notes a,
                 row_status = ''pending''\<rparr>
          \<and> (db_next_id db \<noteq> 0
              \<longrightarrow> fst (extract_appointment_data now user_message bot_response user_id db)
                    = Some (a\<lparr>appointment_id := Some (db_next_id db)\<rparr>)))"
proof (intro conjI impI)
  assume "\<not> should_create user_message bot_response"
  then show "extract_appointment_data now user_message bot_response user_id db = (None, db)"
    by (auto simp: extract_appointment_data_def should_create_def split: if_splits)
next
  assume "should_create user_message bot_response
          \<and> parse_appointment_details now user_message bot_response = None"
  then show "extract_appointment_data now user_message bot_response user_id db = (None, db)"
    by (auto simp: extract_appointment_data_def should_create_def split: if_splits)
next
  assume "should_create user_message bot_response
          \<and> parse_appointment_details now user_message bot_response = Some a
          \<and> (\<not> db_available db \<or> has_nul_parameter a)"
  then show "extract_appointment_data now user_message bot_response user_id db = (None, db)"
    by (auto simp: extract_appointment_data_def should_create_def create_appointment_def
          split: if_splits)
next
  assume h: "should_create user_message bot_response
          \<and> parse_appointment_details now user_message bot_response = Some a
          \<and> db_available db \<and> \<not> has_nul_parameter a
          \<and> db_outcome db (inserted_row user_id a (db_next_id db)) \<noteq> Committed"
  then show "fst (extract_appointment_data now user_message bot_response user_id db) = None"
    by (cases "db_outcome db (inserted_row user_id a (db_next_id db))")
       (auto simp: extract_appointment_data_def should_create_def create_appointment_def
          split: if_splits)
  from h show "db_rows (snd (extract_appointment_data now user_message bot_response user_id db))
                 = db_rows db"
    by (cases "db_outcome db (inserted_row user_id a (db_next_id db))")
       (auto simp: extract_appointment_data_def should_create_def create_appointment_def
          split: if_splits)
next
  assume h: "should_create user_message bot_response
          \<and> parse_appointment_details now user_message bot_response = Some a
          \<and> db_available db \<and> \<not> has_nul_parameter a
          \<and> db_outcome db (inserted_row user_id a (db_next_id db)) = Committed"
  then show "snd (extract_appointment_data now user_message bot_response user_id db)
            = db\<lparr>db_rows := db_rows db @ [inserted_row user_id a (db_next_id db)],
                 db_next_id := db_next_id db + 1\<rparr>"
    by (auto simp: extract_appointment_data_def should_create_def create_appointment_def
          split: if_splits)
  show "inserted_row user_id a (db_next_id db)
              = \<lparr>row_id = db_next_id db, row_user_id = user_id, row_title = title a,
                 row_description = description a,
                 row_appointment_date = appointment_date a,
                 row_duration_minutes = duration_minutes a,
                 row_appointment_type = appointment_type a,
                 row_location = location a, row_notes = appt_notes a,
                 row_status = ''pending''\<rparr>"
    by (simp add: inserted_row_def)
  assume "db_next_id db \<noteq> 0"
  with h show "fst (extract_appointment_data now user_message bot_response user_id db)
                    = Some (a\<lparr>appointment_id := Some (db_next_id db)\<rparr>)"
    by (auto simp: extract_appointment_data_def should_create_def create_appointment_def
          split: if_splits)
qed

theorem pipeline_inserts_appointment_witness:
  "\<not> should_create ''hello'' ''hi there''
   \<and> extract_appointment_data (mk_datetime 2024 1 1 0 0 0) ''hello'' ''hi there'' 7
        \<lparr>db_available = True, db_rows = [], db_next_id = 1,
         db_outcome = (\<lambda>row. Committed)\<rparr>
      = (None, \<lparr>db_available = True, db_rows = [], db_next_id = 1,
                db_outcome = (\<lambda>row. Committed)\<rparr>)
   \<and> should_create ''book a visit at 77:88'' ''booked''
   \<and> parse_appointment_details (mk_datetime 2024 1 1 0 0 0) ''book a visit at 77:88'' ''booked''
      = None
   \<and> extract_appointment_data (mk_datetime 2024 1 1 0 0 0) ''book a visit at 77:88'' ''booked'' 7
        \<lparr>db_available = True, db_rows = [], db_next_id = 1,
         db_outcome = (\<lambda>row. Committed)\<rparr>
      = (None, \<lparr>db_available = True, db_rows = [], db_next_id = 1,
                db_outcome = (\<lambda>row. Committed)\<rparr>)
   \<and> should_create ''schedule a meeting tomorrow'' ''ok''
   \<and> parse_appointment_details (mk_datetime 2024 1 1 0 0 0) ''schedule a meeting tomorrow'' ''ok''
      = Some \<lparr>title = ''Appointment'', description = ''schedule a meeting tomorrow'',
               appointment_type = ''general'', duration_minutes = 60, location = None,
               appt_notes = None, appointment_date = ''2024-01-02T10:00:00'',
               appointment_id = None\<rparr>
   \<and> \<not> has_nul_parameter
         \<lparr>title = ''Appointment'', description = ''schedule a meeting tomorrow'',
          appointment_type = ''general'', duration_minutes = 60, location = None,
          appt_notes = None, appointment_date = ''2024-01-02T10:00:00'',
          appointment_id = None\<rparr>
   \<and> extract_appointment_data (mk_datetime 2024 1 1 0 0 0) ''schedule a meeting tomorrow'' ''ok'' 7
        \<lparr>db_available = False, db_rows = [], db_next_id = 1,
         db_outcome = (\<lambda>row. Committed)\<rparr>
      = (None, \<lparr>db_available = False, db_rows = [], db_next_id = 1,
                db_outcome = (\<lambda>row. Committed)\<rparr>)
   \<and> should_create (CHR 0x00 # ''schedule a meeting tomorrow'') ''ok''
   \<and> parse_appointment_details (mk_datetime 2024 1 1 0 0 0)
        (CHR 0x00 # ''schedule a meeting tomorrow'') ''ok''
      = Some \<lparr>title = ''Appointment'',
               description = CHR 0x00 # ''schedule a meeting tomorrow'',
               appointment_type = ''general'', duration_minutes = 60, location = None,
               appt_notes = None, appointment_date = ''2024-01-02T10:00:00'',
               appointment_id = None\<rparr>
   \<and> has_nul_parameter
         \<lparr>title = ''Appointment'',
          description = CHR 0x00 # ''schedule a meeting tomorrow'',
          appointment_type = ''general'', duration_minutes = 60, location = None,
          appt_notes = None, appointment_date = ''2024-01-02T10:00:00'',
          appointment_id = None\<rparr>
   \<and> extract_appointment_data (mk_datetime 2024 1 1 0 0 0)
        (CHR 0x00 # ''schedule a meeting tomorrow'') ''ok'' 7
        \<lparr>db_available = True, db_rows = [], db_next_id = 1,
         db_outcome = (\<lambda>row. Committed)\<rparr>
      = (None, \<lparr>db_available = True, db_rows = [], db_next_id = 1,
                db_outcome = (\<lambda>row. Committed)\<rparr>)
   \<and> fst (extract_appointment_data (mk_datetime 2024 1 1 0 0 0)
             ''schedule a meeting tomorrow'' ''ok'' 7
             \<lparr>db_available = True, db_rows = [], db_next_id = 1,
              db_outcome = (\<lambda>row. Raised)\<rparr>) = None
   \<and> db_rows (snd (extract_appointment_data (mk_datetime 2024 1 1 0 0 0)
             ''schedule a meeting tomorrow'' ''ok'' 7
             \<lparr>db_available = True, db_rows = [], db_next_id = 1,
              db_outcome = (\<lambda>row. Raised)\<rparr>)) = []
   \<and> extract_appointment_data (mk_datetime 2024 1 1 0 0 0) ''schedule a meeting tomorrow'' ''ok'' 7
        \<lparr>db_available = True, db_rows = [], db_next_id = 1,
         db_outcome = (\<lambda>row. Committed)\<rparr>
      = (Some \<lparr>title = ''Appointment'', description = ''schedule a meeting tomorrow'',
               appointment_type = ''general'', duration_minutes = 60, location = None,
               appt_notes = None, appointment_date = ''2024-01-02T10:00:00'',
               appointment_id = Some 1\<rparr>,
         \<lparr>db_available = True,
          db_rows = [\<lparr>row_id = 1, row_user_id = 7, row_title = ''Appointment'',
                      row_description = ''schedule a meeting tomorrow'',
                      row_appointment_date = ''2024-01-02T10:00:00'',
                      row_duration_minutes = 60, row_appointment_type = ''general'',
                      row_location = None, row_notes = None, row_status = ''pending''\<rparr>],
          db_next_id = 2,
          db_outcome = (\<lambda>row. Committed)\<rparr>)"
proof -
  let ?now = "mk_datetime 2024 1 1 0 0 0"
  let ?up = "\<lparr>db_available = True, db_rows = [], db_next_id = 1,
              db_outcome = (\<lambda>row. Committed)\<rparr>"
  let ?down = "\<lparr>db_available = False, db_rows = [], db_next_id = 1,
                db_outcome = (\<lambda>row. Committed)\<rparr>"
  let ?bad = "\<lparr>db_available = True, db_rows = [], db_next_id = 1,
               db_outcome = (\<lambda>row. Raised)\<rparr>"
  let ?u2 = "''book a visit at 77:88''"
  let ?u3 = "''schedule a meeting tomorrow''"
  let ?u4 = "CHR 0x00 # ''schedule a meeting tomorrow''"
  let ?a = "\<lparr>title = ''Appointment'', description = ?u3,
             appointment_type = ''general'', duration_minutes = 60, location = None,
             appt_notes = None, appointment_date = ''2024-01-02T10:00:00'',
             appointment_id = None\<rparr>"
  let ?a4 = "\<lparr>title = ''Appointment'', description = ?u4,
              appointment_type = ''general'', duration_minutes = 60, location = None,
              appt_notes = None, appointment_date = ''2024-01-02T10:00:00'',
              appointment_id = None\<rparr>"
  have s1: "\<not> should_create ''hello'' ''hi there''" by code_simp
  have s2: "should_create ?u2 ''booked''" by code_simp
  have s3: "should_create ?u3 ''ok''" by code_simp
  have s4: "should_create ?u4 ''ok''" by code_simp
  \<comment> \<open>the text with the clock time out of range\<close>
  have l2: "lower ?u2 = ?u2" by code_simp
  have rs: "re_search match_hour_minute ?u2
              = Some \<lparr>group0 = ''77:88'', groups = [Some ''77'', Some ''88'', None]\<rparr>"
    by code_simp
  have ck: "clock_of_match \<lparr>group0 = ''77:88'', groups = [Some ''77'', Some ''88'', None]\<rparr>
              = Inr (77, 88)"
    by code_simp
  have tp2: "apply_time_patterns time_patterns ?u2 b = Inl ValueError" for b
    unfolding time_patterns_def apply_time_patterns.simps rs
    by (simp add: ck then_do_def replace_hour_minute_def replace_time_def)
  have "isl (parse_date_time_value ?now ?u2)"
    unfolding parse_date_time_value_def Let_def l2
    by (rule isl_then_do) (simp add: tp2 then_do_def)
  then have "isl (parse_date_time ?now ?u2)"
    by (cases "parse_date_time_value ?now ?u2") (simp_all add: parse_date_time_def then_do_def)
  then have p2: "parse_appointment_details ?now ?u2 ''booked'' = None"
    by (cases "parse_date_time ?now ?u2") (simp_all add: parse_appointment_details_def Let_def)
  \<comment> \<open>the text that parses\<close>
  have l3: "lower ?u3 = ?u3" by code_simp
  have rb: "resolve_base_date ?now ?u3
              = Inr \<lparr>ordinal = 738887, hour = 10, minute = 0, second = 0, microsecond = 0\<rparr>"
    by (simp add: resolve_base_date_def date_defs days_of_week_def)
  have fc: "find_clock time_patterns ?u3 = None" by code_simp
  have tp: "apply_time_patterns time_patterns ?u3 b = Inr b" for b
    by (simp add: apply_time_patterns_find_clock fc)
  have td: "apply_time_descriptions ?u3 b = Inr b" for b
    by (simp add: apply_time_descriptions_def)
  have iso: "isoformat \<lparr>ordinal = 738887, hour = 10, minute = 0, second = 0, microsecond = 0\<rparr>
              = ''2024-01-02T10:00:00''"
    by code_simp
  have pdt: "parse_date_time ?now ?u3 = Inr ''2024-01-02T10:00:00''"
    by (simp add: parse_date_time_def parse_date_time_value_def l3 rb tp td iso then_do_def)
  have ty: "\<not> any_keyword_in [''medical'', ''doctor'', ''checkup'', ''health''] ?u3"
    "\<not> any_keyword_in [''consultation'', ''consult''] ?u3"
    "\<not> any_keyword_in [''follow'', ''follow-up''] ?u3"
    by code_simp+
  have du: "\<not> contains ?u3 ''30 minutes''" "\<not> contains ?u3 ''half hour''"
    "\<not> contains ?u3 ''45 minutes''" "\<not> contains ?u3 ''90 minutes''"
    "\<not> contains ?u3 ''1.5 hours''" "\<not> contains ?u3 ''2 hours''"
    "\<not> contains ?u3 ''120 minutes''"
    by simp_all
  have p3: "parse_appointment_details ?now ?u3 ''ok'' = Some ?a"
    by (simp add: parse_appointment_details_def pdt ty l3 du)
  have n3: "\<not> has_nul_parameter ?a"
    by (simp add: has_nul_parameter_def has_nul_def)
  \<comment> \<open>the same text after a NUL character\<close>
  have l4: "lower ?u4 = ?u4" by code_simp
  have rb4: "resolve_base_date ?now ?u4
              = Inr \<lparr>ordinal = 738887, hour = 10, minute = 0, second = 0, microsecond = 0\<rparr>"
    by (simp add: resolve_base_date_def date_defs days_of_week_def)
  have fc4: "find_clock time_patterns ?u4 = None" by code_simp
  have tp4: "apply_time_patterns time_patterns ?u4 b = Inr b" for b
    by (simp add: apply_time_patterns_find_clock fc4)
  have td4: "apply_time_descriptions ?u4 b = Inr b" for b
    by (simp add: apply_time_descriptions_def)
  have pdt4: "parse_date_time ?now ?u4 = Inr ''2024-01-02T10:00:00''"
    by (simp add: parse_date_time_def parse_date_time_value_def l4 rb4 tp4 td4 iso then_do_def)
  have ty4: "\<not> any_keyword_in [''medical'', ''doctor'', ''checkup'', ''health''] ?u4"
    "\<not> any_keyword_in [''consultation'', ''consult''] ?u4"
    "\<not> any_keyword_in [''follow'', ''follow-up''] ?u4"
    by code_simp+
  have du4: "\<not> contains ?u4 ''30 minutes''" "\<not> contains ?u4 ''half hour''"
    "\<not> contains ?u4 ''45 minutes''" "\<not> contains ?u4 ''90 minutes''"
    "\<not> contains ?u4 ''1.5 hours''" "\<not> contains ?u4 ''2 hours''"
    "\<not> contains ?u4 ''120 minutes''"
    by simp_all
  have p4: "parse_appointment_details ?now ?u4 ''ok'' = Some ?a4"
    by (simp add: parse_appointment_details_def pdt4 ty4 l4 du4)
  have n4: "has_nul_parameter ?a4"
    by (simp add: has_nul_parameter_def has_nul_def)
  \<comment> \<open>the databases\<close>
  have d1: "\<not> db_available ?down \<or> has_nul_parameter ?a" by simp
  have d4: "\<not> db_available ?up \<or> has_nul_parameter ?a4" using n4 by simp
  have d2: "db_available ?up" by simp
  have d3: "db_next_id ?up \<noteq> 0" by simp
  have d5: "db_available ?bad" by simp
  have o1: "db_outcome ?up (inserted_row 7 ?a (db_next_id ?up)) = Committed" by simp
  have o2: "db_outcome ?bad (inserted_row 7 ?a (db_next_id ?bad)) \<noteq> Committed" by simp
  from pipeline_inserts_appointment [of "''hello''" "''hi there''" ?now 7 ?up] s1
  have e1: "extract_appointment_data ?now ''hello'' ''hi there'' 7 ?up = (None, ?up)"
    by blast
  from pipeline_inserts_appointment [of ?u2 "''booked''" ?now 7 ?up] s2 p2
  have e2: "extract_appointment_data ?now ?u2 ''booked'' 7 ?up = (None, ?up)"
    by blast
  from pipeline_inserts_appointment [of ?u3 "''ok''" ?now 7 ?down ?a] s3 p3 d1
  have e3: "extract_appointment_data ?now ?u3 ''ok'' 7 ?down = (None, ?down)"
    by blast
  from pipeline_inserts_appointment [of ?u4 "''ok''" ?now 7 ?up ?a4] s4 p4 d4
  have e4: "extract_appointment_data ?now ?u4 ''ok'' 7 ?up = (None, ?up)"
    by blast
  from pipeline_inserts_appointment [of ?u3 "''ok''" ?now 7 ?bad ?a] s3 p3 d5 n3 o2
  have e5: "fst (extract_appointment_data ?now ?u3 ''ok'' 7 ?bad) = None
            \<and> db_rows (snd (extract_appointment_data ?now ?u3 ''ok'' 7 ?bad)) = db_rows ?bad"
    by blast
  then have e5a: "fst (extract_appointment_data ?now ?u3 ''ok'' 7 ?bad) = None"
    and e5b: "db_rows (snd (extract_appointment_data ?now ?u3 ''ok'' 7 ?bad)) = []"
    by simp_all
  from pipeline_inserts_appointment [of ?u3 "''ok''" ?now 7 ?up ?a] s3 p3 d2 n3 o1 d3
  have "snd (extract_appointment_data ?now ?u3 ''ok'' 7 ?up)
            = ?up\<lparr>db_rows := db_rows ?up @ [inserted_row 7 ?a (db_next_id ?up)],
                   db_next_id := db_next_id ?up + 1\<rparr>
        \<and> fst (extract_appointment_data ?now ?u3 ''ok'' 7 ?up)
            = Some (?a\<lparr>appointment_id := Some (db_next_id ?up)\<rparr>)"
    by blast
  then have e6: "extract_appointment_data ?now ?u3 ''ok'' 7 ?up
      = (Some \<lparr>title = ''Appointment'', description = ?u3,
               appointment_type = ''general'', duration_minutes = 60, location = None,
               appt_notes = None, appointment_date = ''2024-01-02T10:00:00'',
               appointment_id = Some 1\<rparr>,
         \<lparr>db_available = True,
          db_rows = [\<lparr>row_id = 1, row_user_id = 7, row_title = ''Appointment'',
                      row_description = ?u3,
                      row_appointment_date = ''2024-01-02T10:00:00'',
                      row_duration_minutes = 60, row_appointment_type = ''general'',
                      row_location = None, row_notes = None, row_status = ''pending''\<rparr>],
          db_next_id = 2,
          db_outcome = (\<lambda>row. Committed)\<rparr>)"
    by (simp add: prod_eq_iff inserted_row_def)
  show ?thesis
    using s1 e1 s2 p2 e2 s3 p3 n3 e3 s4 p4 n4 e4 e5a e5b e6 by blast
qed

end
